theory Spec2Isabelle
  imports
    Main
    "HOL-Library.AList"
    "HOL-Library.Char_ord"
    "HOL-Library.List_Lexorder"
    "HOL-Library.Product_Lexorder"
begin

section \<open>Presence counters (src/api/main.py)\<close>

text \<open>
  \<^verbatim>\<open>presence_counters: Dict[str, Dict[str, int]]\<close> maps an organization id to the
  per-user dict of open-connection counts. The outer dict is only looked up, stored to and
  popped, so it is a map; the inner dict is tested for emptiness (\<^verbatim>\<open>if not org\<close>), so
  it is an association list: \<open>AList.update\<close> is \<^verbatim>\<open>org[k] = v\<close> (replace in place or
  append), \<open>AList.delete\<close> is \<^verbatim>\<open>org.pop(k, None)\<close>. Counts are Python ints.
\<close>

type_synonym presence = "string \<rightharpoonup> (string \<times> int) list"

text \<open>\<^verbatim>\<open>org.get(user_id, 0)\<close>\<close>

definition get_count :: "(string \<times> int) list \<Rightarrow> string \<Rightarrow> int" where
  "get_count org user_id = (case map_of org user_id of None \<Rightarrow> 0 | Some c \<Rightarrow> c)"

text \<open>\<^verbatim>\<open>presence_counters.get(org_id, {}).get(user_id, 0)\<close>: the count read by the callers.\<close>

definition presence_count :: "presence \<Rightarrow> string \<Rightarrow> string \<Rightarrow> int" where
  "presence_count pc organization_id user_id =
     (case pc organization_id of None \<Rightarrow> 0 | Some org \<Rightarrow> get_count org user_id)"

text \<open>
  \<^verbatim>\<open>
  def _increment_presence(organization_id, user_id) -> bool:
      org = presence_counters.setdefault(organization_id, {})
      previous = org.get(user_id, 0)
      org[user_id] = previous + 1
      return previous == 0
  \<close>
\<close>

definition increment_presence :: "presence \<Rightarrow> string \<Rightarrow> string \<Rightarrow> presence \<times> bool" where
  "increment_presence pc organization_id user_id =
     (let org = (case pc organization_id of None \<Rightarrow> [] | Some m \<Rightarrow> m);
          previous = get_count org user_id
      in (pc(organization_id \<mapsto> AList.update user_id (previous + 1) org), previous = 0))"

text \<open>
  \<^verbatim>\<open>
  def _decrement_presence(organization_id, user_id) -> bool:
      org = presence_counters.get(organization_id)
      if not org:
          return False
      previous = org.get(user_id, 0)
      if previous <= 1:
          org.pop(user_id, None)
          if not org:
              presence_counters.pop(organization_id, None)
          return previous > 0
      org[user_id] = previous - 1
      return False
  \<close>
\<close>

definition decrement_presence :: "presence \<Rightarrow> string \<Rightarrow> string \<Rightarrow> presence \<times> bool" where
  "decrement_presence pc organization_id user_id =
     (case pc organization_id of
        None \<Rightarrow> (pc, False)
      | Some org \<Rightarrow>
          if org = [] then (pc, False)
          else
            let previous = get_count org user_id in
            if previous \<le> 1 then
              (let org' = AList.delete user_id org in
               (if org' = [] then pc(organization_id := None)
                else pc(organization_id \<mapsto> org'),
                0 < previous))
            else (pc(organization_id \<mapsto> AList.update user_id (previous - 1) org), False))"

text \<open>
  The counters are written by these two functions only (and cleared as a whole by the
  debug endpoint), so the states the server can be in are the ones below.
\<close>

inductive reachable_presence :: "presence \<Rightarrow> bool" where
  cleared: "reachable_presence Map.empty"
| incremented:
    "reachable_presence pc \<Longrightarrow>
     reachable_presence (fst (increment_presence pc organization_id user_id))"
| decremented:
    "reachable_presence pc \<Longrightarrow>
     reachable_presence (fst (decrement_presence pc organization_id user_id))"

text \<open>What holds of every reachable counter table: every stored count is positive.\<close>

definition positive_counts :: "presence \<Rightarrow> bool" where
  "positive_counts pc \<longleftrightarrow>
     (\<forall>organization_id org. pc organization_id = Some org \<longrightarrow> (\<forall>(u, c) \<in> set org. 1 \<le> c))"


section \<open>Connection tables (src/api/main.py)\<close>

text \<open>A WebSocket object is an opaque handle, compared by identity.\<close>

type_synonym websocket = nat

text \<open>The fields of a user dict that the chat subsystem reads.\<close>

record user =
  user_id :: string
  user_name :: string
  user_avatar :: string
  user_organization_id :: string
  user_role :: string
  user_profile_picture :: "string option"

text \<open>The \<^verbatim>\<open>connection_info\<close> dict of \<^verbatim>\<open>add_chat_connection\<close>.\<close>

record connection =
  conn_websocket :: websocket
  conn_user_id :: string
  conn_user_name :: string
  conn_user_avatar :: string

text \<open>
  The two module-level tables that registering and unregistering a socket touch:
  \<^verbatim>\<open>active_chat_connections: Dict[str, List[Dict[str, Any]]]\<close> and
  \<^verbatim>\<open>presence_counters\<close>. The functions on them are stated on every extension of
  the record, so that they also run on the whole server state below.
\<close>

record hub =
  active_chat_connections :: "string \<rightharpoonup> connection list"
  presence_counters :: presence

text \<open>
  \<^verbatim>\<open>
  def add_chat_connection(organization_id, websocket, user_data) -> bool:
      if organization_id not in active_chat_connections:
          active_chat_connections[organization_id] = []
      connection_info = {'websocket': websocket, 'user_id': user_data['id'],
                         'user_name': user_data['name'], 'user_avatar': user_data['avatar']}
      active_chat_connections[organization_id].append(connection_info)
      return _increment_presence(organization_id, user_data['id'])
  \<close>
\<close>

definition add_chat_connection ::
  "'a hub_scheme \<Rightarrow> string \<Rightarrow> websocket \<Rightarrow> user \<Rightarrow> 'a hub_scheme \<times> bool" where
  "add_chat_connection h organization_id ws user_data =
     (let existing = (case active_chat_connections h organization_id of
                        None \<Rightarrow> [] | Some cs \<Rightarrow> cs);
          connection_info = \<lparr>conn_websocket = ws, conn_user_id = user_id user_data,
                             conn_user_name = user_name user_data,
                             conn_user_avatar = user_avatar user_data\<rparr>;
          (pc, first_online) =
             increment_presence (presence_counters h) organization_id (user_id user_data)
      in (h\<lparr>active_chat_connections :=
               (active_chat_connections h)(organization_id \<mapsto> existing @ [connection_info]),
             presence_counters := pc\<rparr>,
          first_online))"

text \<open>
  \<^verbatim>\<open>
  def remove_chat_connection(organization_id, websocket, user_id) -> bool:
      if organization_id in active_chat_connections:
          remaining = []
          for conn in active_chat_connections[organization_id]:
              if conn['websocket'] != websocket:
                  remaining.append(conn)
          if remaining:
              active_chat_connections[organization_id] = remaining
          else:
              active_chat_connections.pop(organization_id, None)
      return _decrement_presence(organization_id, user_id)
  \<close>
\<close>

definition remove_chat_connection ::
  "'a hub_scheme \<Rightarrow> string \<Rightarrow> websocket \<Rightarrow> string \<Rightarrow> 'a hub_scheme \<times> bool" where
  "remove_chat_connection h organization_id ws uid =
     (let table =
            (case active_chat_connections h organization_id of
               None \<Rightarrow> active_chat_connections h
             | Some cs \<Rightarrow>
                 (let remaining = filter (\<lambda>conn. conn_websocket conn \<noteq> ws) cs in
                  if remaining \<noteq> [] then (active_chat_connections h)(organization_id \<mapsto> remaining)
                  else (active_chat_connections h)(organization_id := None)));
          (pc, went_offline) = decrement_presence (presence_counters h) organization_id uid
      in (h\<lparr>active_chat_connections := table, presence_counters := pc\<rparr>, went_offline))"

text \<open>The state with no connection at all, as at start-up and after \<^verbatim>\<open>/debug/clear\<close>.\<close>

definition empty_hub :: hub where
  "empty_hub = \<lparr>active_chat_connections = Map.empty, presence_counters = Map.empty\<rparr>"


section \<open>Python values in message records\<close>

text \<open>
  A naive \<^verbatim>\<open>datetime\<close> (no tzinfo), as \<^verbatim>\<open>datetime.utcnow()\<close> returns it.
\<close>

record datetime =
  dt_year :: nat
  dt_month :: nat
  dt_day :: nat
  dt_hour :: nat
  dt_minute :: nat
  dt_second :: nat
  dt_microsecond :: nat

text \<open>
  The values a field of a message dict holds: what \<^verbatim>\<open>json.load\<close> yields for JSON
  null, booleans, integers and strings, and \<^verbatim>\<open>datetime\<close> objects, which
  \<^verbatim>\<open>normalize_message_record\<close> tests for.
\<close>

datatype pyval = PyNone | PyBool bool | PyInt int | PyStr string | PyDatetime datetime

text \<open>A dict with string keys, in insertion order.\<close>

type_synonym pydict = "(string \<times> pyval) list"

text \<open>\<^verbatim>\<open>d.get(k)\<close>, \<^verbatim>\<open>k in d\<close> and \<^verbatim>\<open>d[k] = v\<close>.\<close>

definition dict_get :: "pydict \<Rightarrow> string \<Rightarrow> pyval" where
  "dict_get d k = (case map_of d k of None \<Rightarrow> PyNone | Some v \<Rightarrow> v)"

definition dict_has :: "pydict \<Rightarrow> string \<Rightarrow> bool" where
  "dict_has d k \<longleftrightarrow> map_of d k \<noteq> None"

definition dict_set :: "pydict \<Rightarrow> string \<Rightarrow> pyval \<Rightarrow> pydict" where
  "dict_set d k v = AList.update k v d"

text \<open>Truth value of a Python object (\<^verbatim>\<open>if x\<close>, \<^verbatim>\<open>not x\<close>, \<^verbatim>\<open>bool(x)\<close>).\<close>

fun truthy :: "pyval \<Rightarrow> bool" where
  "truthy PyNone = False"
| "truthy (PyBool b) = b"
| "truthy (PyInt i) = (i \<noteq> 0)"
| "truthy (PyStr s) = (s \<noteq> [])"
| "truthy (PyDatetime d) = True"

fun is_datetime :: "pyval \<Rightarrow> bool" where
  "is_datetime (PyDatetime d) = True"
| "is_datetime v = False"

text \<open>Decimal digits, zero-padded fields and \<^verbatim>\<open>str\<close> of an int.\<close>

definition digit :: "nat \<Rightarrow> char" where
  "digit n = char_of (48 + n mod 10)"

fun pad :: "nat \<Rightarrow> nat \<Rightarrow> string" where
  "pad 0 n = []"
| "pad (Suc w) n = pad w (n div 10) @ [digit n]"

function str_nat :: "nat \<Rightarrow> string" where
  "str_nat n = (if n < 10 then [digit n] else str_nat (n div 10) @ [digit n])"
  by pat_completeness auto
termination
  by (relation "measure id") auto

definition str_int :: "int \<Rightarrow> string" where
  "str_int i = (if i < 0 then CHR ''-'' # str_nat (nat (- i)) else str_nat (nat i))"

text \<open>
  \<^verbatim>\<open>datetime.isoformat(sep)\<close>: \<^verbatim>\<open>YYYY-MM-DDTHH:MM:SS\<close>, followed by
  \<^verbatim>\<open>.ffffff\<close> when the microsecond is not 0.
\<close>

definition isoformat_sep :: "char \<Rightarrow> datetime \<Rightarrow> string" where
  "isoformat_sep sep d =
     pad 4 (dt_year d) @ ''-'' @ pad 2 (dt_month d) @ ''-'' @ pad 2 (dt_day d) @ [sep]
     @ pad 2 (dt_hour d) @ '':'' @ pad 2 (dt_minute d) @ '':'' @ pad 2 (dt_second d)
     @ (if dt_microsecond d = 0 then [] else ''.'' @ pad 6 (dt_microsecond d))"

definition isoformat :: "datetime \<Rightarrow> string" where
  "isoformat d = isoformat_sep CHR ''T'' d"

text \<open>\<^verbatim>\<open>str(x)\<close>\<close>

fun py_str :: "pyval \<Rightarrow> string" where
  "py_str PyNone = ''None''"
| "py_str (PyBool b) = (if b then ''True'' else ''False'')"
| "py_str (PyInt i) = str_int i"
| "py_str (PyStr s) = s"
| "py_str (PyDatetime d) = isoformat_sep CHR '' '' d"

text \<open>\<^verbatim>\<open>x not in ("message", "text")\<close>: only a str equals a str.\<close>

definition is_plain_type :: "pyval \<Rightarrow> bool" where
  "is_plain_type v \<longleftrightarrow> v = PyStr ''message'' \<or> v = PyStr ''text''"


section \<open>Message normalisation (src/api/main.py)\<close>

text \<open>
  \<^verbatim>\<open>normalize_message_record(message) -> bool\<close> rewrites the dict in place and returns
  whether it changed it. The model returns the new dict with the flag. The clock read by
  \<^verbatim>\<open>datetime.utcnow()\<close> is the parameter \<open>now\<close>. The blocks of the function follow in
  the source's order, each one a function on the pair of the dict and \<^verbatim>\<open>updated\<close>.
\<close>

text \<open>
  \<^verbatim>\<open>
  for new_key, legacy_key in (("sender_id", "author_id"), ("sender_name", "author_name"),
                              ("sender_avatar", "author_avatar")):
      new_value = message.get(new_key)
      legacy_value = message.get(legacy_key)
      if new_value is None and legacy_value is not None:
          message[new_key] = legacy_value
          updated = True
      elif legacy_value is None and new_value is not None:
          message[legacy_key] = new_value
          updated = True
  \<close>
\<close>

definition alias_keys :: "string \<times> string \<Rightarrow> pydict \<times> bool \<Rightarrow> pydict \<times> bool" where
  "alias_keys = (\<lambda>(new_key, legacy_key) (message, updated).
     let new_value = dict_get message new_key;
         legacy_value = dict_get message legacy_key
     in if new_value = PyNone \<and> legacy_value \<noteq> PyNone
          then (dict_set message new_key legacy_value, True)
        else if legacy_value = PyNone \<and> new_value \<noteq> PyNone
          then (dict_set message legacy_key new_value, True)
        else (message, updated))"

definition sender_aliases :: "pydict \<times> bool \<Rightarrow> pydict \<times> bool" where
  "sender_aliases =
     fold alias_keys [(''sender_id'', ''author_id''), (''sender_name'', ''author_name''),
                      (''sender_avatar'', ''author_avatar'')]"

text \<open>
  \<^verbatim>\<open>
  message_type = message.get("message_type")
  if not message_type:
      legacy_type = message.get("type")
      if legacy_type and legacy_type not in ("message", "text"):
          message_type = str(legacy_type)
      else:
          message_type = "text"
      message["message_type"] = message_type
      updated = True
  else:
      message_type = str(message_type)
  if not message.get("type"):
      message["type"] = message_type
      updated = True
  \<close>
\<close>

definition standardize_type :: "pydict \<times> bool \<Rightarrow> pydict \<times> bool" where
  "standardize_type = (\<lambda>(message, updated).
     let message_type0 = dict_get message ''message_type'';
         (message1, message_type, updated1) =
           (if \<not> truthy message_type0 then
              (let legacy_type = dict_get message ''type'';
                   mt = (if truthy legacy_type \<and> \<not> is_plain_type legacy_type
                         then py_str legacy_type else ''text'')
               in (dict_set message ''message_type'' (PyStr mt), mt, True))
            else (message, py_str message_type0, updated))
     in if \<not> truthy (dict_get message1 ''type'')
        then (dict_set message1 ''type'' (PyStr message_type), True)
        else (message1, updated1))"

text \<open>
  \<^verbatim>\<open>
  if "edited" not in message and "is_edited" in message:
      message["edited"] = bool(message.get("is_edited"))
      updated = True
  elif "edited" not in message:
      message["edited"] = False
      updated = True
  \<close>
\<close>

definition edited_flag :: "pydict \<times> bool \<Rightarrow> pydict \<times> bool" where
  "edited_flag = (\<lambda>(message, updated).
     if \<not> dict_has message ''edited'' \<and> dict_has message ''is_edited''
       then (dict_set message ''edited'' (PyBool (truthy (dict_get message ''is_edited''))), True)
     else if \<not> dict_has message ''edited''
       then (dict_set message ''edited'' (PyBool False), True)
     else (message, updated))"

text \<open>
  \<^verbatim>\<open>
  if "reply_to" not in message and message.get("parent_message_id"):
      message["reply_to"] = message.get("parent_message_id")
      updated = True
  \<close>
\<close>

definition reply_to_alias :: "pydict \<times> bool \<Rightarrow> pydict \<times> bool" where
  "reply_to_alias = (\<lambda>(message, updated).
     if \<not> dict_has message ''reply_to'' \<and> truthy (dict_get message ''parent_message_id'')
       then (dict_set message ''reply_to'' (dict_get message ''parent_message_id''), True)
     else (message, updated))"

text \<open>
  \<^verbatim>\<open>
  created_at = message.get("created_at")
  if isinstance(created_at, datetime):
      message["created_at"] = created_at.isoformat()
      updated = True
  elif not created_at:
      message["created_at"] = datetime.utcnow().isoformat()
      updated = True
  updated_at = message.get("updated_at")
  if isinstance(updated_at, datetime):
      message["updated_at"] = updated_at.isoformat()
      updated = True
  \<close>
\<close>

definition created_at_string :: "datetime \<Rightarrow> pydict \<times> bool \<Rightarrow> pydict \<times> bool" where
  "created_at_string now = (\<lambda>(message, updated).
     case dict_get message ''created_at'' of
       PyDatetime d \<Rightarrow> (dict_set message ''created_at'' (PyStr (isoformat d)), True)
     | created_at \<Rightarrow>
         if \<not> truthy created_at
           then (dict_set message ''created_at'' (PyStr (isoformat now)), True)
         else (message, updated))"

definition updated_at_string :: "pydict \<times> bool \<Rightarrow> pydict \<times> bool" where
  "updated_at_string = (\<lambda>(message, updated).
     case dict_get message ''updated_at'' of
       PyDatetime d \<Rightarrow> (dict_set message ''updated_at'' (PyStr (isoformat d)), True)
     | _ \<Rightarrow> (message, updated))"

definition normalize_message_record :: "datetime \<Rightarrow> pydict \<Rightarrow> pydict \<times> bool" where
  "normalize_message_record now message =
     updated_at_string (created_at_string now (reply_to_alias (edited_flag
       (standardize_type (sender_aliases (message, False))))))"


text \<open>
  A record on which no block of the function fires: both names of each sender field are
  set or both are missing, the two type fields are truthy, the edited flag is present,
  a parent id has its alias, and the timestamps are not \<^verbatim>\<open>datetime\<close> objects.
\<close>

definition aliased :: "pydict \<Rightarrow> string \<Rightarrow> string \<Rightarrow> bool" where
  "aliased d n l \<longleftrightarrow> (dict_get d n = PyNone \<longleftrightarrow> dict_get d l = PyNone)"

definition normalized :: "pydict \<Rightarrow> bool" where
  "normalized d \<longleftrightarrow>
     aliased d ''sender_id'' ''author_id'' \<and> aliased d ''sender_name'' ''author_name''
     \<and> aliased d ''sender_avatar'' ''author_avatar''
     \<and> truthy (dict_get d ''message_type'') \<and> truthy (dict_get d ''type'')
     \<and> dict_has d ''edited''
     \<and> (dict_has d ''reply_to'' \<or> \<not> truthy (dict_get d ''parent_message_id''))
     \<and> \<not> is_datetime (dict_get d ''created_at'') \<and> truthy (dict_get d ''created_at'')
     \<and> \<not> is_datetime (dict_get d ''updated_at'')"


section \<open>Server state and fan-out (src/api/main.py)\<close>

text \<open>
  An event is the dict a broadcast sends: string keys, and values that are scalars or,
  under \<^verbatim>\<open>'message'\<close>, a message dict.
\<close>

datatype evalue = Scalar pyval | Nested pydict

type_synonym event = "(string \<times> evalue) list"

text \<open>A conversation dict of \<^verbatim>\<open>conversations_db\<close>.\<close>

record conversation =
  conv_id :: string
  conv_type :: string
  conv_name :: string
  conv_participants :: "string list"
  conv_organization_id :: string
  conv_created_at :: string
  conv_updated_at :: string

text \<open>
  The module-level stores, in addition to the two tables of the hub. Dicts that the code
  iterates over (\<^verbatim>\<open>.values()\<close>) are association lists in insertion order; the others
  are maps. An SSE queue is an opaque handle. The two JSON files are the lists they hold,
  or None when the file is missing or does not parse.
\<close>

record server = hub +
  sse_connections :: "string \<rightharpoonup> nat list"
  users_db :: "(string \<times> user) list"
  conversations_db :: "(string \<times> conversation) list"
  conversation_messages_db :: "(string \<times> pydict) list"
  user_conversations_db :: "string \<rightharpoonup> string list"
  conversations_file :: "conversation list option"
  messages_file :: "pydict list option"

text \<open>
  What a broadcast does to the outside: the event is written to a socket or put on the
  queue of an event stream. The text sent is \<^verbatim>\<open>json.dumps(message)\<close>; the events the
  handlers build hold strings, booleans and None only, so serialising them does not
  raise, and a delivery records the event itself.
\<close>

datatype endpoint = Socket websocket | Stream nat

type_synonym delivery = "endpoint \<times> event"

text \<open>
  \<^verbatim>\<open>
  async def broadcast_to_sse(organization_id, message):
      if organization_id not in sse_connections:
          return
      stale = []
      for queue in sse_connections[organization_id]:
          try:
              queue.put_nowait(message)
          except Exception:
              stale.append(queue)
      if stale: ...
  \<close>
  The queues are created with \<^verbatim>\<open>asyncio.Queue()\<close>, unbounded, so \<^verbatim>\<open>put_nowait\<close>
  does not raise and \<^verbatim>\<open>stale\<close> stays empty.
\<close>

definition broadcast_to_sse :: "server \<Rightarrow> string \<Rightarrow> event \<Rightarrow> delivery list" where
  "broadcast_to_sse st organization_id message =
     (case sse_connections st organization_id of
        None \<Rightarrow> []
      | Some queues \<Rightarrow> map (\<lambda>queue. (Stream queue, message)) queues)"

text \<open>
  \<^verbatim>\<open>
  async def broadcast_to_organization(organization_id, message, exclude_websocket=None):
      if organization_id in active_chat_connections:
          message_str = json.dumps(message)
          connections_to_remove = []
          for connection in active_chat_connections[organization_id]:
              if connection['websocket'] == exclude_websocket:
                  continue
              try:
                  await connection['websocket'].send_text(message_str)
              except Exception as e:
                  connections_to_remove.append(connection)
          for conn in connections_to_remove:
              try:
                  active_chat_connections[organization_id].remove(conn)
              except ValueError:
                  pass
          if not active_chat_connections.get(organization_id):
              active_chat_connections.pop(organization_id, None)
      await broadcast_to_sse(organization_id, message)
  \<close>
  Whether \<^verbatim>\<open>send_text\<close> on a socket succeeds is the environment's: the parameter
  \<open>send_ok\<close>. The result is the new state and the deliveries made, in order.
\<close>

definition broadcast_to_organization ::
  "(websocket \<Rightarrow> bool) \<Rightarrow> server \<Rightarrow> string \<Rightarrow> event \<Rightarrow> websocket option
   \<Rightarrow> server \<times> delivery list" where
  "broadcast_to_organization send_ok st organization_id message exclude_websocket =
     (case active_chat_connections st organization_id of
        None \<Rightarrow> (st, broadcast_to_sse st organization_id message)
      | Some connections \<Rightarrow>
          (let targets = filter (\<lambda>connection. Some (conn_websocket connection) \<noteq> exclude_websocket)
                           connections;
               sent = filter (\<lambda>connection. send_ok (conn_websocket connection)) targets;
               connections_to_remove =
                 filter (\<lambda>connection. \<not> send_ok (conn_websocket connection)) targets;
               remaining = foldl (\<lambda>cs conn. remove1 conn cs) connections connections_to_remove;
               st' = st\<lparr>active_chat_connections :=
                        (if remaining = [] then (active_chat_connections st)(organization_id := None)
                         else (active_chat_connections st)(organization_id \<mapsto> remaining))\<rparr>
           in (st', map (\<lambda>connection. (Socket (conn_websocket connection), message)) sent
                    @ broadcast_to_sse st' organization_id message)))"

text \<open>
  \<^verbatim>\<open>
  async def broadcast_to_conversation(conversation_id, message, exclude_websocket=None):
      """Broadcast message to all participants in a specific conversation"""
      conversation = conversations_db.get(conversation_id)
      if not conversation:
          return
      # Get organization from conversation participants
      participants = conversation.get('participants', [])
      if not participants:
          return
      # Get first participant's organization (assuming all in same org)
      first_user = users_db.get(participants[0])
      if not first_user:
          return
      org_id = first_user['organization_id']
      # Broadcast to organization but add conversation context
      message['conversation_id'] = conversation_id
      await broadcast_to_organization(org_id, message, exclude_websocket)
  \<close>
\<close>

definition broadcast_to_conversation ::
  "(websocket \<Rightarrow> bool) \<Rightarrow> server \<Rightarrow> string \<Rightarrow> event \<Rightarrow> websocket option
   \<Rightarrow> server \<times> delivery list" where
  "broadcast_to_conversation send_ok st conversation_id message exclude_websocket =
     (case map_of (conversations_db st) conversation_id of
        None \<Rightarrow> (st, [])
      | Some conversation \<Rightarrow>
          (case conv_participants conversation of
             [] \<Rightarrow> (st, [])
           | first_participant # _ \<Rightarrow>
               (case map_of (users_db st) first_participant of
                  None \<Rightarrow> (st, [])
                | Some first_user \<Rightarrow>
                    broadcast_to_organization send_ok st (user_organization_id first_user)
                      (AList.update ''conversation_id'' (Scalar (PyStr conversation_id)) message)
                      exclude_websocket)))"

section \<open>ConnectionManager (src/api/websocket_manager.py)\<close>

text \<open>
  The three tables of a \<^verbatim>\<open>ConnectionManager\<close>: the socket of each connected user, the
  organization of each connected user, and per conversation id the set of user ids that
  are typing.
\<close>

record manager =
  cm_active_connections :: "string \<rightharpoonup> websocket"
  cm_user_organizations :: "string \<rightharpoonup> string"
  cm_typing_users :: "string \<rightharpoonup> string set"

definition new_manager :: manager where
  "new_manager = \<lparr>cm_active_connections = Map.empty, cm_user_organizations = Map.empty,
                   cm_typing_users = Map.empty\<rparr>"

text \<open>
  The table updates of \<^verbatim>\<open>connect\<close> (the socket is accepted before and the
  \<^verbatim>\<open>user_online\<close> broadcast follows):
  \<^verbatim>\<open>
  self.active_connections[user_id] = websocket
  self.user_organizations[user_id] = organization_id
  \<close>
\<close>

definition cm_connect :: "manager \<Rightarrow> websocket \<Rightarrow> string \<Rightarrow> string \<Rightarrow> manager" where
  "cm_connect m ws uid organization_id =
     m\<lparr>cm_active_connections := (cm_active_connections m)(uid \<mapsto> ws),
       cm_user_organizations := (cm_user_organizations m)(uid \<mapsto> organization_id)\<rparr>"

text \<open>
  \<^verbatim>\<open>
  def disconnect(self, user_id):
      if user_id in self.active_connections:
          del self.active_connections[user_id]
      organization_id = self.user_organizations.get(user_id)
      if user_id in self.user_organizations:
          del self.user_organizations[user_id]
      for conversation_id in self.typing_users:
          self.typing_users[conversation_id].discard(user_id)
      if organization_id:
          return organization_id
      return None
  \<close>
\<close>

definition cm_disconnect :: "manager \<Rightarrow> string \<Rightarrow> manager \<times> string option" where
  "cm_disconnect m uid =
     (let organization_id = cm_user_organizations m uid
      in (m\<lparr>cm_active_connections := (cm_active_connections m)(uid := None),
            cm_user_organizations := (cm_user_organizations m)(uid := None),
            cm_typing_users := (\<lambda>conversation_id.
               map_option (\<lambda>users. users - {uid}) (cm_typing_users m conversation_id))\<rparr>,
          case organization_id of
            None \<Rightarrow> None
          | Some org \<Rightarrow> if org \<noteq> [] then Some org else None))"

text \<open>
  \<^verbatim>\<open>
  def set_typing_status(self, conversation_id, user_id, is_typing):
      if conversation_id not in self.typing_users:
          self.typing_users[conversation_id] = set()
      if is_typing:
          self.typing_users[conversation_id].add(user_id)
      else:
          self.typing_users[conversation_id].discard(user_id)
  \<close>
\<close>

definition set_typing_status :: "manager \<Rightarrow> string \<Rightarrow> string \<Rightarrow> bool \<Rightarrow> manager" where
  "set_typing_status m conversation_id uid is_typing =
     (let users = (case cm_typing_users m conversation_id of None \<Rightarrow> {} | Some s \<Rightarrow> s)
      in m\<lparr>cm_typing_users := (cm_typing_users m)(conversation_id \<mapsto>
             (if is_typing then insert uid users else users - {uid}))\<rparr>)"

text \<open>
  \<^verbatim>\<open>return list(self.typing_users.get(conversation_id, set()))\<close>: the order of the
  list made from a set is unspecified, so the result is the set of its elements.
\<close>

definition get_typing_users :: "manager \<Rightarrow> string \<Rightarrow> string set" where
  "get_typing_users m conversation_id =
     (case cm_typing_users m conversation_id of None \<Rightarrow> {} | Some s \<Rightarrow> s)"

text \<open>
  The frames of the WebSocket endpoint of src/api/chat\_routes.py that touch the typing
  table: \<^verbatim>\<open>typing\<close> calls \<^verbatim>\<open>set_typing_status(conversation_id, user, True)\<close> and
  \<^verbatim>\<open>stop_typing\<close> calls it with False, both only when the frame carries a non-empty
  conversation id. A typing event is the conversation id, the user of the connection and
  the flag.
\<close>

type_synonym typing_event = "string \<times> string \<times> bool"

definition typing_frame :: "manager \<Rightarrow> typing_event \<Rightarrow> manager" where
  "typing_frame m = (\<lambda>(conversation_id, uid, is_typing).
     if conversation_id \<noteq> [] then set_typing_status m conversation_id uid is_typing else m)"

text \<open>
  \<^verbatim>\<open>
  async def broadcast_to_conversation(self, conversation_participants, message,
                                      exclude_user=None):
      disconnected_users = []
      for user_id in conversation_participants:
          if user_id != exclude_user and user_id in self.active_connections:
              websocket = self.active_connections[user_id]
              try:
                  await websocket.send_text(json.dumps(message, default=str))
              except Exception as e:
                  disconnected_users.append(user_id)
      for user_id in disconnected_users:
          self.disconnect(user_id)
  \<close>
  The result is the new tables and the sockets the event was written to, in order.
\<close>

definition cm_broadcast_to_conversation ::
  "(websocket \<Rightarrow> bool) \<Rightarrow> manager \<Rightarrow> string list \<Rightarrow> event \<Rightarrow> string option
   \<Rightarrow> manager \<times> (websocket \<times> event) list" where
  "cm_broadcast_to_conversation send_ok m conversation_participants message exclude_user =
     (let targets =
            List.map_filter
              (\<lambda>uid. if Some uid \<noteq> exclude_user
                      then map_option (\<lambda>ws. (uid, ws)) (cm_active_connections m uid)
                      else None)
              conversation_participants;
          disconnected_users = map fst (filter (\<lambda>(uid, ws). \<not> send_ok ws) targets)
      in (fold (\<lambda>uid m'. fst (cm_disconnect m' uid)) disconnected_users m,
          map (\<lambda>(uid, ws). (ws, message)) (filter (\<lambda>(uid, ws). send_ok ws) targets)))"


section \<open>Strings, errors and files\<close>

text \<open>
  \<^verbatim>\<open>str.strip()\<close> removes leading and trailing whitespace. A character stands for the
  code point of its number; the whitespace code points below 256 are the ones listed.
\<close>

definition py_isspace :: "char \<Rightarrow> bool" where
  "py_isspace c \<longleftrightarrow> (of_char c :: nat) \<in> {9, 10, 11, 12, 13, 28, 29, 30, 31, 32, 133, 160}"

definition strip :: "string \<Rightarrow> string" where
  "strip s = rev (dropWhile py_isspace (rev (dropWhile py_isspace s)))"

definition startswith :: "string \<Rightarrow> string \<Rightarrow> bool" where
  "startswith s p \<longleftrightarrow> take (length p) s = p"

text \<open>\<^verbatim>\<open>f"team-chat-{organization_id}"\<close>\<close>

definition team_chat_id :: "string \<Rightarrow> string" where
  "team_chat_id organization_id = ''team-chat-'' @ organization_id"

text \<open>
  Exceptions raised inside a handler, and what the client gets. Every handler ends in
  \<^verbatim>\<open>except Exception as e: raise HTTPException(500, detail=f"<prefix>{str(e)}")\<close>:
  \<open>ServerError prefix e\<close> is that response.
\<close>

datatype py_exception = HTTPError nat string | ValidationError | TypeError | AttributeError | KeyError

datatype http_error = HTTPException nat string | ServerError string py_exception

text \<open>\<^verbatim>\<open>a == b\<close> on field values: a bool equals the int of its value.\<close>

fun py_eq :: "pyval \<Rightarrow> pyval \<Rightarrow> bool" where
  "py_eq (PyBool b) (PyInt i) = (i = (if b then 1 else 0))"
| "py_eq (PyInt i) (PyBool b) = (i = (if b then 1 else 0))"
| "py_eq v w = (v = w)"

text \<open>
  The upsert loop of the two \<^verbatim>\<open>save_...\<close> functions: the first entry with the same id
  is replaced, otherwise the new entry is appended.
\<close>

fun upsert :: "('a \<Rightarrow> 'a \<Rightarrow> bool) \<Rightarrow> 'a \<Rightarrow> 'a list \<Rightarrow> 'a list" where
  "upsert same x [] = [x]"
| "upsert same x (y # ys) = (if same y x then x # ys else y # upsert same x ys)"

text \<open>
  \<^verbatim>\<open>
  def save_conversation_data(conversation_data):
      try: data = json.load(f)
      except (FileNotFoundError, json.JSONDecodeError): data = {"conversations": []}
      replaced = False
      for i, conv in enumerate(data.get("conversations", [])):
          if conv.get('id') == conversation_data.get('id'):
              data["conversations"][i] = conversation_data; replaced = True; break
      if not replaced:
          data.setdefault("conversations", []).append(conversation_data)
      json.dump(data, f, indent=2)
  \<close>
\<close>

definition save_conversation_data :: "server \<Rightarrow> conversation \<Rightarrow> server" where
  "save_conversation_data st conversation_data =
     st\<lparr>conversations_file :=
          Some (upsert (\<lambda>conv new. conv_id conv = conv_id new) conversation_data
                  (case conversations_file st of None \<Rightarrow> [] | Some cs \<Rightarrow> cs))\<rparr>"

text \<open>
  \<^verbatim>\<open>
  def save_conversation_message(msg_data):
      message_record = dict(msg_data) if isinstance(msg_data, dict) else {}
      normalize_message_record(message_record)
      try: data = json.load(f)
      except (FileNotFoundError, json.JSONDecodeError): data = {"messages": []}
      replaced = False
      for idx, existing in enumerate(data.get("messages", [])):
          if existing.get('id') == message_record.get('id'):
              data["messages"][idx] = message_record; replaced = True; break
      if not replaced:
          data.setdefault("messages", []).append(message_record)
      json.dump(data, f, indent=2)
  \<close>
  The record normalised and written is a copy: the caller's dict is not changed.
\<close>

definition save_conversation_message :: "datetime \<Rightarrow> server \<Rightarrow> pydict \<Rightarrow> server" where
  "save_conversation_message now st msg_data =
     (let message_record = fst (normalize_message_record now msg_data)
      in st\<lparr>messages_file :=
            Some (upsert (\<lambda>existing new. py_eq (dict_get existing ''id'') (dict_get new ''id''))
                    message_record
                    (case messages_file st of None \<Rightarrow> [] | Some ms \<Rightarrow> ms))\<rparr>)"

text \<open>
  \<^verbatim>\<open>
  def delete_conversation_message(message_id):
      try:
          data = json.load(f)
          original_count = len(data.get("messages", []))
          data["messages"] = [m for m in data.get("messages", []) if m.get('id') != message_id]
          if len(data["messages"]) < original_count:
              json.dump(data, f, indent=2)
              return True
          return False
      except (FileNotFoundError, json.JSONDecodeError) as e:
          return False
  \<close>
\<close>

definition delete_conversation_message :: "server \<Rightarrow> string \<Rightarrow> server \<times> bool" where
  "delete_conversation_message st message_id =
     (case messages_file st of
        None \<Rightarrow> (st, False)
      | Some messages \<Rightarrow>
          (let kept = filter (\<lambda>m. dict_get m ''id'' \<noteq> PyStr message_id) messages
           in if length kept < length messages then (st\<lparr>messages_file := Some kept\<rparr>, True)
              else (st, False)))"

text \<open>The messages a fresh read of the file yields (\<^verbatim>\<open>safe_load_json\<close>).\<close>

definition stored_messages :: "server \<Rightarrow> pydict list" where
  "stored_messages st = (case messages_file st of None \<Rightarrow> [] | Some ms \<Rightarrow> ms)"


section \<open>Conversations (src/api/main.py)\<close>

text \<open>
  The loop that files a conversation id under a user:
  \<^verbatim>\<open>
  if user_id not in user_conversations_db:
      user_conversations_db[user_id] = []
  if conv_id not in user_conversations_db[user_id]:
      user_conversations_db[user_id].append(conv_id)
  \<close>
\<close>

definition add_user_conversation ::
  "string \<Rightarrow> string \<Rightarrow> (string \<rightharpoonup> string list) \<Rightarrow> (string \<rightharpoonup> string list)" where
  "add_user_conversation conversation_id uid m =
     (let ids = (case m uid of None \<Rightarrow> [] | Some l \<Rightarrow> l)
      in m(uid \<mapsto> (if conversation_id \<in> set ids then ids else ids @ [conversation_id])))"

text \<open>
  \<^verbatim>\<open>
  def create_team_conversation(organization_id):
      team_conv_id = f"team-chat-{organization_id}"
      if team_conv_id in conversations_db:
          return conversations_db[team_conv_id]
      org_users = [u['id'] for u in users_db.values()
                   if u.get('organization_id') == organization_id]
      conversation = {'id': team_conv_id, 'type': 'team', 'name': 'Team Chat',
                      'participants': org_users, 'organization_id': organization_id,
                      'created_at': datetime.utcnow().isoformat(),
                      'updated_at': datetime.utcnow().isoformat()}
      conversations_db[team_conv_id] = conversation
      save_conversation_data(conversation)
      for user_id in org_users: ...
      return conversation
  \<close>
  The parameter \<open>now\<close> is the clock of the call: both timestamps take it.
\<close>

definition create_team_conversation :: "datetime \<Rightarrow> server \<Rightarrow> string \<Rightarrow> server \<times> conversation" where
  "create_team_conversation now st organization_id =
     (let team_conv_id = team_chat_id organization_id
      in case map_of (conversations_db st) team_conv_id of
           Some existing \<Rightarrow> (st, existing)
         | None \<Rightarrow>
             (let org_users = map (\<lambda>(k, u). user_id u)
                                (filter (\<lambda>(k, u). user_organization_id u = organization_id)
                                   (users_db st));
                  conversation = \<lparr>conv_id = team_conv_id, conv_type = ''team'',
                                  conv_name = ''Team Chat'', conv_participants = org_users,
                                  conv_organization_id = organization_id,
                                  conv_created_at = isoformat now,
                                  conv_updated_at = isoformat now\<rparr>;
                  st1 = st\<lparr>conversations_db :=
                             AList.update team_conv_id conversation (conversations_db st)\<rparr>;
                  st2 = save_conversation_data st1 conversation
              in (st2\<lparr>user_conversations_db :=
                        fold (add_user_conversation team_conv_id) org_users
                          (user_conversations_db st2)\<rparr>,
                  conversation)))"

text \<open>\<^verbatim>\<open>CreateConversationRequest\<close> and \<^verbatim>\<open>ConversationType\<close>.\<close>

datatype conversation_type = TEAM | DIRECT

fun type_value :: "conversation_type \<Rightarrow> string" where
  "type_value TEAM = ''team''"
| "type_value DIRECT = ''direct''"

record create_conversation_request =
  req_id :: "string option"
  req_type :: conversation_type
  req_participants :: "string list"
  req_name :: "string option"

text \<open>
  \<^verbatim>\<open>
  async def create_conversation(request, current_user):
      try:
          conversation_id = request.id or str(uuid.uuid4())
          if conversation_id in conversations_db:
              existing_conv = conversations_db[conversation_id]
              return ConversationResponse(**existing_conv)
          participants = request.participants or []
          if current_user['id'] not in participants:
              participants.append(current_user['id'])
          if request.type == ConversationType.DIRECT and len(participants) != 2:
              raise HTTPException(400, "Direct conversations must have exactly 2 participants")
          for participant_id in participants:
              participant = users_db.get(participant_id)
              if not participant or participant['organization_id'] != current_user['organization_id']:
                  raise HTTPException(400, f"Invalid participant: {participant_id}")
          conv_name = request.name
          if request.type == ConversationType.DIRECT and not conv_name:
              other_user_id = next((p for p in participants if p != current_user['id']), None)
              if other_user_id:
                  other_user = users_db.get(other_user_id)
                  if other_user:
                      conv_name = other_user['name']
          conversation = {'id': conversation_id, 'type': request.type.value,
                          'name': conv_name or f"Conversation {conversation_id[:8]}",
                          'participants': participants,
                          'organization_id': current_user['organization_id'],
                          'created_at': ..., 'updated_at': ...}
          conversations_db[conversation_id] = conversation
          save_conversation_data(conversation)
          for participant_id in participants: ...
          return ConversationResponse(id=..., type=..., name=..., participants=..., ...)
      except Exception as e:
          raise HTTPException(500, detail=f"Failed to create conversation: {str(e)}")
  \<close>
  The uuid drawn is the parameter \<open>fresh_uuid\<close>, the clock of the call is \<open>now\<close>
  (both timestamps take it). The response carries the id, type,
  name, participants and timestamps of the conversation returned here. The 400 errors are
  raised inside the \<^verbatim>\<open>try\<close>, so they reach the client as 500.
\<close>

definition create_conversation ::
  "string \<Rightarrow> datetime \<Rightarrow> server \<Rightarrow> create_conversation_request \<Rightarrow> user
   \<Rightarrow> server \<times> (http_error + conversation)" where
  "create_conversation fresh_uuid now st request current_user =
     (let conversation_id = (case req_id request of
                               None \<Rightarrow> fresh_uuid
                             | Some i \<Rightarrow> if i \<noteq> [] then i else fresh_uuid);
          failed = (\<lambda>e. Inl (ServerError ''Failed to create conversation: '' e))
      in case map_of (conversations_db st) conversation_id of
           Some existing_conv \<Rightarrow> (st, Inr existing_conv)
         | None \<Rightarrow>
             (let participants =
                    (if user_id current_user \<in> set (req_participants request)
                     then req_participants request
                     else req_participants request @ [user_id current_user])
              in if req_type request = DIRECT \<and> length participants \<noteq> 2
                   then (st, failed (HTTPError 400
                                       ''Direct conversations must have exactly 2 participants''))
                 else
                   (case find (\<lambda>participant_id.
                                 case map_of (users_db st) participant_id of
                                   None \<Rightarrow> True
                                 | Some participant \<Rightarrow>
                                     user_organization_id participant
                                       \<noteq> user_organization_id current_user)
                           participants of
                      Some participant_id \<Rightarrow>
                        (st, failed (HTTPError 400 (''Invalid participant: '' @ participant_id)))
                    | None \<Rightarrow>
                        (let conv_name =
                               (if req_type request = DIRECT
                                   \<and> (req_name request = None \<or> req_name request = Some [])
                                then (case find (\<lambda>p. p \<noteq> user_id current_user) participants of
                                        None \<Rightarrow> req_name request
                                      | Some other_user_id \<Rightarrow>
                                          if other_user_id = [] then req_name request
                                          else (case map_of (users_db st) other_user_id of
                                                  None \<Rightarrow> req_name request
                                                | Some other_user \<Rightarrow> Some (user_name other_user)))
                                else req_name request);
                             conversation =
                               \<lparr>conv_id = conversation_id,
                                conv_type = type_value (req_type request),
                                conv_name = (case conv_name of
                                               None \<Rightarrow> ''Conversation '' @ take 8 conversation_id
                                             | Some n \<Rightarrow> if n \<noteq> [] then n
                                                 else ''Conversation '' @ take 8 conversation_id),
                                conv_participants = participants,
                                conv_organization_id = user_organization_id current_user,
                                conv_created_at = isoformat now,
                                conv_updated_at = isoformat now\<rparr>;
                             st1 = st\<lparr>conversations_db :=
                                        AList.update conversation_id conversation
                                          (conversations_db st)\<rparr>;
                             st2 = save_conversation_data st1 conversation
                         in (st2\<lparr>user_conversations_db :=
                                   fold (add_user_conversation conversation_id) participants
                                     (user_conversations_db st2)\<rparr>,
                             Inr conversation)))))"

text \<open>
  The direct conversations of an organization whose participants are the two given
  users, in either order.
\<close>

definition direct_conversations :: "server \<Rightarrow> string \<Rightarrow> string \<Rightarrow> string \<Rightarrow> conversation list" where
  "direct_conversations st organization_id a b =
     filter (\<lambda>c. conv_type c = ''direct'' \<and> conv_organization_id c = organization_id
                  \<and> set (conv_participants c) = {a, b})
       (map snd (conversations_db st))"


section \<open>Message responses and history queries (src/api/main.py)\<close>

text \<open>\<^verbatim>\<open>ConversationMessageResponse\<close>\<close>

record message_response =
  resp_id :: string
  resp_content :: string
  resp_sender_id :: string
  resp_sender_name :: string
  resp_sender_avatar :: string
  resp_sender_profile_picture :: "string option"
  resp_conversation_id :: string
  resp_created_at :: string
  resp_message_type :: string
  resp_edited :: bool
  resp_reply_to :: "string option"

text \<open>
  Validation of a \<^verbatim>\<open>str\<close> field and of an \<^verbatim>\<open>Optional[str]\<close> field of the response
  model: any other value raises a validation error.
\<close>

fun as_str :: "pyval \<Rightarrow> string option" where
  "as_str (PyStr s) = Some s"
| "as_str v = None"

fun as_optional_str :: "pyval \<Rightarrow> string option option" where
  "as_optional_str PyNone = Some None"
| "as_optional_str (PyStr s) = Some (Some s)"
| "as_optional_str v = None"

text \<open>\<^verbatim>\<open>a or b\<close>\<close>

definition py_or :: "pyval \<Rightarrow> pyval \<Rightarrow> pyval" where
  "py_or a b = (if truthy a then a else b)"

text \<open>\<^verbatim>\<open>users_db.get(x)\<close> and \<^verbatim>\<open>conversations_db.get(x)\<close>: the keys are strings.\<close>

definition lookup_user :: "server \<Rightarrow> pyval \<Rightarrow> user option" where
  "lookup_user st v = (case v of PyStr s \<Rightarrow> map_of (users_db st) s | _ \<Rightarrow> None)"

definition lookup_conversation :: "server \<Rightarrow> pyval \<Rightarrow> conversation option" where
  "lookup_conversation st v = (case v of PyStr s \<Rightarrow> map_of (conversations_db st) s | _ \<Rightarrow> None)"

definition optional_value :: "string option \<Rightarrow> pyval" where
  "optional_value x = (case x of None \<Rightarrow> PyNone | Some s \<Rightarrow> PyStr s)"

text \<open>
  \<^verbatim>\<open>
  def build_message_response(message):
      normalize_message_record(message)
      sender_id = message.get("sender_id") or message.get("author_id") or ""
      sender_name = message.get("sender_name") or message.get("author_name") or ""
      sender_avatar = message.get("sender_avatar") or message.get("author_avatar") or ""
      sender_profile_picture = message.get("sender_profile_picture")
      if not sender_profile_picture and sender_id:
          sender = users_db.get(sender_id)
          if sender:
              sender_profile_picture = sender.get("profile_picture")
      created_at = message.get("created_at")
      if isinstance(created_at, datetime): created_at = created_at.isoformat()
      elif not created_at: created_at = datetime.utcnow().isoformat()
      message_type = message.get("message_type") or "text"
      edited_value = message.get("edited")
      if edited_value is None:
          edited_value = bool(message.get("is_edited", False))
      return ConversationMessageResponse(
          id=str(message.get("id", "")), content=message.get("content", ""),
          sender_id=str(sender_id), sender_name=sender_name, sender_avatar=sender_avatar,
          sender_profile_picture=sender_profile_picture,
          conversation_id=str(message.get("conversation_id", "")),
          created_at=str(created_at), message_type=str(message_type),
          edited=bool(edited_value), reply_to=message.get("reply_to"))
  \<close>
  The dict passed in is normalised in place: the first component of the result is the
  dict as the call leaves it.
\<close>

definition build_message_response ::
  "datetime \<Rightarrow> server \<Rightarrow> pydict \<Rightarrow> pydict \<times> (py_exception + message_response)" where
  "build_message_response now st message0 =
     (let message = fst (normalize_message_record now message0);
          sender_id = py_or (py_or (dict_get message ''sender_id'') (dict_get message ''author_id''))
                        (PyStr []);
          sender_name = py_or (py_or (dict_get message ''sender_name'')
                                  (dict_get message ''author_name'')) (PyStr []);
          sender_avatar = py_or (py_or (dict_get message ''sender_avatar'')
                                    (dict_get message ''author_avatar'')) (PyStr []);
          picture0 = dict_get message ''sender_profile_picture'';
          sender_profile_picture =
            (if \<not> truthy picture0 \<and> truthy sender_id then
               (case lookup_user st sender_id of
                  None \<Rightarrow> picture0
                | Some sender \<Rightarrow> optional_value (user_profile_picture sender))
             else picture0);
          created_at0 = dict_get message ''created_at'';
          created_at = (case created_at0 of
                          PyDatetime d \<Rightarrow> PyStr (isoformat d)
                        | _ \<Rightarrow> if \<not> truthy created_at0 then PyStr (isoformat now)
                               else created_at0);
          message_type = py_or (dict_get message ''message_type'') (PyStr ''text'');
          edited0 = dict_get message ''edited'';
          edited_value = (if edited0 = PyNone then PyBool (truthy (dict_get message ''is_edited''))
                          else edited0);
          content = (if dict_has message ''content'' then dict_get message ''content''
                     else PyStr [])
      in (message,
          case (as_str content, as_str sender_name, as_str sender_avatar,
                as_optional_str sender_profile_picture,
                as_optional_str (dict_get message ''reply_to'')) of
            (Some c, Some n, Some a, Some p, Some r) \<Rightarrow>
              Inr \<lparr>resp_id = (if dict_has message ''id'' then py_str (dict_get message ''id'')
                              else []),
                   resp_content = c, resp_sender_id = py_str sender_id,
                   resp_sender_name = n, resp_sender_avatar = a,
                   resp_sender_profile_picture = p,
                   resp_conversation_id =
                     (if dict_has message ''conversation_id''
                      then py_str (dict_get message ''conversation_id'') else []),
                   resp_created_at = py_str created_at,
                   resp_message_type = py_str message_type,
                   resp_edited = truthy edited_value, resp_reply_to = r\<rparr>
          | _ \<Rightarrow> Inl ValidationError))"

text \<open>
  Sorting by \<^verbatim>\<open>key=lambda m: m.get('created_at', '')\<close>. Python's sort is stable and
  compares the keys with \<^verbatim>\<open><\<close>: strings among themselves (by code point), numbers
  among themselves, datetimes among themselves; any other pairing raises TypeError (and
  so do two None keys). A list of at most one element is not compared at all.
\<close>

definition created_at_key :: "pydict \<Rightarrow> pyval" where
  "created_at_key m = (if dict_has m ''created_at'' then dict_get m ''created_at'' else PyStr [])"

fun str_key :: "pyval \<Rightarrow> string option" where
  "str_key (PyStr s) = Some s"
| "str_key v = None"

fun num_key :: "pyval \<Rightarrow> int option" where
  "num_key (PyInt i) = Some i"
| "num_key (PyBool b) = Some (if b then 1 else 0)"
| "num_key v = None"

fun time_key :: "pyval \<Rightarrow> (nat \<times> nat \<times> nat \<times> nat \<times> nat \<times> nat \<times> nat) option" where
  "time_key (PyDatetime d) =
     Some (dt_year d, dt_month d, dt_day d, dt_hour d, dt_minute d, dt_second d,
           dt_microsecond d)"
| "time_key v = None"

definition py_sorted_by :: "('a \<Rightarrow> pyval) \<Rightarrow> 'a list \<Rightarrow> 'a list option" where
  "py_sorted_by key xs =
     (if length xs \<le> 1 then Some xs
      else if list_all (\<lambda>x. str_key (key x) \<noteq> None) xs
        then Some (sort_key (\<lambda>x. the (str_key (key x))) xs)
      else if list_all (\<lambda>x. num_key (key x) \<noteq> None) xs
        then Some (sort_key (\<lambda>x. the (num_key (key x))) xs)
      else if list_all (\<lambda>x. time_key (key x) \<noteq> None) xs
        then Some (sort_key (\<lambda>x. the (time_key (key x))) xs)
      else None)"

text \<open>\<^verbatim>\<open>xs[-limit:]\<close> for an int \<open>limit\<close> of any sign.\<close>

definition last_slice :: "int \<Rightarrow> 'a list \<Rightarrow> 'a list" where
  "last_slice limit xs =
     (if 0 < limit then drop (length xs - nat limit) xs else drop (nat (- limit)) xs)"

text \<open>
  \<^verbatim>\<open>[build_message_response(msg) for msg in messages]\<close>, on entries of
  \<^verbatim>\<open>conversation_messages_db\<close>: each call normalises the stored dict in place, and the
  first call that raises ends the handler with a 500.
\<close>

fun build_responses ::
  "string \<Rightarrow> datetime \<Rightarrow> server \<Rightarrow> (string \<times> pydict) list
   \<Rightarrow> server \<times> (http_error + message_response list)" where
  "build_responses prefix now st [] = (st, Inr [])"
| "build_responses prefix now st ((k, message) # rest) =
     (case build_message_response now st message of
        (message', built) \<Rightarrow>
          (let st' = st\<lparr>conversation_messages_db :=
                        AList.update k message' (conversation_messages_db st)\<rparr>
           in case built of
                Inl e \<Rightarrow> (st', Inl (ServerError prefix e))
              | Inr response \<Rightarrow>
                  (case build_responses prefix now st' rest of
                     (st'', Inl e) \<Rightarrow> (st'', Inl e)
                   | (st'', Inr responses) \<Rightarrow> (st'', Inr (response # responses)))))"

text \<open>
  \<^verbatim>\<open>
  async def get_chat_messages(conversation_id=None, limit=50, current_user=...):
      try:
          org_id = current_user['organization_id']
          if not conversation_id:
              conversation_id = f"team-chat-{org_id}"
          if conversation_id == "team-chat":
              conversation_id = f"team-chat-{org_id}"
          conversation = conversations_db.get(conversation_id)
          if conversation:
              if current_user['id'] not in conversation.get('participants', []):
                  raise HTTPException(403, "Access denied to conversation")
          filtered_messages = []
          for message in conversation_messages_db.values():
              if message.get('conversation_id') != conversation_id:
                  continue
              msg_author = users_db.get(message.get('author_id'))
              if not msg_author or msg_author.get('organization_id') != org_id:
                  continue
              filtered_messages.append(message)
          filtered_messages.sort(key=lambda m: m.get('created_at', ''))
          filtered_messages = filtered_messages[-limit:]
          return [build_message_response(msg) for msg in filtered_messages]
      except HTTPException: raise
      except Exception as e:
          raise HTTPException(500, detail=f"Failed to load messages: {str(e)}")
  \<close>
\<close>

definition resolve_conversation_id :: "string \<Rightarrow> string option \<Rightarrow> string" where
  "resolve_conversation_id org_id conversation_id =
     (let c = (case conversation_id of
                 None \<Rightarrow> team_chat_id org_id
               | Some c \<Rightarrow> if c \<noteq> [] then c else team_chat_id org_id)
      in if c = ''team-chat'' then team_chat_id org_id else c)"

definition get_chat_messages ::
  "datetime \<Rightarrow> server \<Rightarrow> string option \<Rightarrow> int \<Rightarrow> user
   \<Rightarrow> server \<times> (http_error + message_response list)" where
  "get_chat_messages now st conversation_id0 limit current_user =
     (let org_id = user_organization_id current_user;
          conversation_id = resolve_conversation_id org_id conversation_id0;
          denied = (case map_of (conversations_db st) conversation_id of
                      None \<Rightarrow> False
                    | Some conversation \<Rightarrow>
                        user_id current_user \<notin> set (conv_participants conversation))
      in if denied then (st, Inl (HTTPException 403 ''Access denied to conversation''))
         else
           (let filtered_messages =
                  filter (\<lambda>(k, message).
                            dict_get message ''conversation_id'' = PyStr conversation_id
                            \<and> (case lookup_user st (dict_get message ''author_id'') of
                                  None \<Rightarrow> False
                                | Some msg_author \<Rightarrow> user_organization_id msg_author = org_id))
                    (conversation_messages_db st)
            in case py_sorted_by (\<lambda>(k, m). created_at_key m) filtered_messages of
                 None \<Rightarrow> (st, Inl (ServerError ''Failed to load messages: '' TypeError))
               | Some sorted_messages \<Rightarrow>
                   build_responses ''Failed to load messages: '' now st
                     (last_slice limit sorted_messages)))"

text \<open>
  The messages the loop of \<^verbatim>\<open>get_chat_messages\<close> keeps for a conversation id and the
  organization of the caller, before they are sorted; and whether the sort key of a
  record is a string that comes before a given timestamp.
\<close>

definition visible_messages :: "server \<Rightarrow> string \<Rightarrow> string \<Rightarrow> (string \<times> pydict) list" where
  "visible_messages st conversation_id org_id =
     filter (\<lambda>(k, message).
               dict_get message ''conversation_id'' = PyStr conversation_id
               \<and> (case lookup_user st (dict_get message ''author_id'') of
                     None \<Rightarrow> False
                   | Some msg_author \<Rightarrow> user_organization_id msg_author = org_id))
       (conversation_messages_db st)"


text \<open>
  \<^verbatim>\<open>
  async def get_conversation_messages(conversation_id, current_user):
      try:
          conversation = conversations_db.get(conversation_id)
          if not conversation:
              raise HTTPException(404, "Conversation not found")
          if current_user['id'] not in conversation.get('participants', []):
              raise HTTPException(403, "Access denied")
          messages = [msg for msg in conversation_messages_db.values()
                      if msg.get('conversation_id') == conversation_id]
          messages.sort(key=lambda x: x.get('created_at', ''))
          message_responses = [build_message_response(msg) for msg in messages]
          return message_responses
      except HTTPException: raise
      except Exception as e:
          raise HTTPException(500, detail=f"Failed to load messages: {str(e)}")
  \<close>
\<close>

definition conversation_entries :: "server \<Rightarrow> string \<Rightarrow> (string \<times> pydict) list" where
  "conversation_entries st conversation_id =
     filter (\<lambda>(k, msg). dict_get msg ''conversation_id'' = PyStr conversation_id)
       (conversation_messages_db st)"

definition get_conversation_messages ::
  "datetime \<Rightarrow> server \<Rightarrow> string \<Rightarrow> user \<Rightarrow> server \<times> (http_error + message_response list)" where
  "get_conversation_messages now st conversation_id current_user =
     (case map_of (conversations_db st) conversation_id of
        None \<Rightarrow> (st, Inl (HTTPException 404 ''Conversation not found''))
      | Some conversation \<Rightarrow>
          if user_id current_user \<notin> set (conv_participants conversation)
            then (st, Inl (HTTPException 403 ''Access denied''))
          else
            (case py_sorted_by (\<lambda>(k, m). created_at_key m) (conversation_entries st conversation_id) of
               None \<Rightarrow> (st, Inl (ServerError ''Failed to load messages: '' TypeError))
             | Some messages \<Rightarrow> build_responses ''Failed to load messages: '' now st messages))"


section \<open>Sending and deleting messages (src/api/main.py)\<close>

text \<open>\<^verbatim>\<open>ChatMessageRequest\<close>: the content and the optional conversation id.\<close>

record chat_message_request =
  msg_content :: string
  msg_conversation_id :: "string option"

text \<open>\<^verbatim>\<open>message_response.model_dump()\<close> followed by \<^verbatim>\<open>setdefault('type', ...)\<close>.\<close>

definition model_dump :: "message_response \<Rightarrow> pydict" where
  "model_dump r =
     [(''id'', PyStr (resp_id r)), (''content'', PyStr (resp_content r)),
      (''sender_id'', PyStr (resp_sender_id r)), (''sender_name'', PyStr (resp_sender_name r)),
      (''sender_avatar'', PyStr (resp_sender_avatar r)),
      (''sender_profile_picture'', optional_value (resp_sender_profile_picture r)),
      (''conversation_id'', PyStr (resp_conversation_id r)),
      (''created_at'', PyStr (resp_created_at r)),
      (''message_type'', PyStr (resp_message_type r)), (''edited'', PyBool (resp_edited r)),
      (''reply_to'', optional_value (resp_reply_to r))]"

definition message_payload :: "message_response \<Rightarrow> pydict" where
  "message_payload r = model_dump r @ [(''type'', PyStr (resp_message_type r))]"

text \<open>
  The conversation a message goes to, in both the HTTP and the WebSocket handler:
  \<^verbatim>\<open>
  conversation = conversations_db.get(conversation_id)
  if not conversation:
      if conversation_id.startswith(f"team-chat-{org_id}"):
          conversation = create_team_conversation(org_id)
          conversation_id = conversation['id']
      else:
          <not found>
  \<close>
\<close>

definition resolve_or_create ::
  "datetime \<Rightarrow> server \<Rightarrow> string \<Rightarrow> string \<Rightarrow> (server \<times> conversation \<times> string) option" where
  "resolve_or_create now st org_id conversation_id =
     (case map_of (conversations_db st) conversation_id of
        Some conversation \<Rightarrow> Some (st, conversation, conversation_id)
      | None \<Rightarrow>
          if startswith conversation_id (team_chat_id org_id) then
            (case create_team_conversation now st org_id of
               (st', conversation) \<Rightarrow> Some (st', conversation, conv_id conversation))
          else None)"

text \<open>
  \<^verbatim>\<open>
  conversation['updated_at'] = created_at
  conversations_db[conversation_id] = conversation
  save_conversation_data(conversation)
  \<close>
\<close>

definition bump_conversation :: "server \<Rightarrow> string \<Rightarrow> conversation \<Rightarrow> string \<Rightarrow> server" where
  "bump_conversation st conversation_id conversation created_at =
     (let conversation' = conversation\<lparr>conv_updated_at := created_at\<rparr>
      in save_conversation_data
           (st\<lparr>conversations_db :=
                 AList.update conversation_id conversation' (conversations_db st)\<rparr>)
           conversation')"

text \<open>
  \<^verbatim>\<open>
  async def send_chat_message(message_data, current_user):
      try:
          content = message_data.content.strip()
          conversation_id = message_data.conversation_id or f"team-chat-{current_user['organization_id']}"
          if conversation_id == "team-chat":
              conversation_id = f"team-chat-{current_user['organization_id']}"
          if not content:
              raise HTTPException(status_code=400, detail="Message content is required")
          conversation = <resolve or create, else raise HTTPException(404, "Conversation not found")>
          if current_user['id'] not in conversation.get('participants', []):
              raise HTTPException(403, "Access denied to conversation")
          message_id = str(uuid.uuid4())
          created_at = datetime.utcnow().isoformat()
          message = {'id': message_id, 'content': content, 'author_id': current_user['id'],
                     'author_name': current_user['name'], 'author_avatar': current_user['avatar'],
                     'conversation_id': conversation_id, 'created_at': created_at,
                     'type': 'message', 'message_type': 'text'}
          normalize_message_record(message)
          conversation_messages_db[message_id] = message
          save_conversation_message(message)
          <bump the conversation>
          message_response = build_message_response(message)
          if not message_response.sender_profile_picture and current_user.get('profile_picture'):
              message_response = message_response.model_copy(
                  update={'sender_profile_picture': current_user.get('profile_picture')})
          message_payload = message_response.model_dump()
          message_payload.setdefault('type', message_payload.get('message_type', 'text'))
          broadcast_message = {'type': 'chat_message', 'message': message_payload,
                               'conversation_id': conversation_id}
          await broadcast_to_conversation(conversation_id, broadcast_message)
          return message_response
      except HTTPException: raise
      except Exception as e:
          raise HTTPException(500, detail=f"Failed to send message: {str(e)}")
  \<close>
  The uuid drawn is \<open>fresh_uuid\<close>; \<open>now\<close> is the clock of the call, for the
  timestamp of the message and for every other read of the clock on the way. The result
  is the new state, the response or the error, and the deliveries made.
\<close>

definition new_message ::
  "string \<Rightarrow> string \<Rightarrow> user \<Rightarrow> string \<Rightarrow> string \<Rightarrow> pydict" where
  "new_message message_id content current_user conversation_id created_at =
     [(''id'', PyStr message_id), (''content'', PyStr content),
      (''author_id'', PyStr (user_id current_user)),
      (''author_name'', PyStr (user_name current_user)),
      (''author_avatar'', PyStr (user_avatar current_user)),
      (''conversation_id'', PyStr conversation_id), (''created_at'', PyStr created_at),
      (''type'', PyStr ''message'')]"

definition send_chat_message ::
  "(websocket \<Rightarrow> bool) \<Rightarrow> string \<Rightarrow> datetime \<Rightarrow> server \<Rightarrow> chat_message_request \<Rightarrow> user
   \<Rightarrow> server \<times> (http_error + message_response) \<times> delivery list" where
  "send_chat_message send_ok fresh_uuid now st message_data current_user =
     (let content = strip (msg_content message_data);
          org_id = user_organization_id current_user;
          conversation_id0 = resolve_conversation_id org_id (msg_conversation_id message_data)
      in if content = [] then (st, Inl (HTTPException 400 ''Message content is required''), [])
         else
           (case resolve_or_create now st org_id conversation_id0 of
              None \<Rightarrow> (st, Inl (HTTPException 404 ''Conversation not found''), [])
            | Some (st1, conversation, conversation_id) \<Rightarrow>
                if user_id current_user \<notin> set (conv_participants conversation)
                  then (st1, Inl (HTTPException 403 ''Access denied to conversation''), [])
                else
                  (let message_id = fresh_uuid;
                       created_at = isoformat now;
                       message = fst (normalize_message_record now
                                   (new_message message_id content current_user conversation_id
                                      created_at @ [(''message_type'', PyStr ''text'')]));
                       st2 = st1\<lparr>conversation_messages_db :=
                                  AList.update message_id message (conversation_messages_db st1)\<rparr>;
                       st3 = save_conversation_message now st2 message;
                       st4 = bump_conversation st3 conversation_id conversation created_at;
                       (message', built) = build_message_response now st4 message;
                       st5 = st4\<lparr>conversation_messages_db :=
                                  AList.update message_id message' (conversation_messages_db st4)\<rparr>
                   in case built of
                        Inl e \<Rightarrow> (st5, Inl (ServerError ''Failed to send message: '' e), [])
                      | Inr response0 \<Rightarrow>
                          (let message_response =
                                 (if (resp_sender_profile_picture response0 = None
                                      \<or> resp_sender_profile_picture response0 = Some [])
                                     \<and> user_profile_picture current_user \<noteq> None
                                     \<and> user_profile_picture current_user \<noteq> Some []
                                  then response0\<lparr>resp_sender_profile_picture :=
                                                   user_profile_picture current_user\<rparr>
                                  else response0);
                               broadcast_message =
                                 [(''type'', Scalar (PyStr ''chat_message'')),
                                  (''message'', Nested (message_payload message_response)),
                                  (''conversation_id'', Scalar (PyStr conversation_id))];
                               (st6, deliveries) =
                                 broadcast_to_conversation send_ok st5 conversation_id
                                   broadcast_message None
                           in (st6, Inr message_response, deliveries)))))"

text \<open>
  One frame of the receive loop of \<^verbatim>\<open>websocket_chat\<close>. The text received either
  does not parse as JSON (the loop goes on), parses to something that is not an object
  (\<^verbatim>\<open>payload.get\<close> raises, the handler leaves the loop and closes the connection), or
  parses to an object.
  \<^verbatim>\<open>
  msg_text = await websocket.receive_text()
  try: payload = json.loads(msg_text)
  except Exception: continue
  mtype = payload.get('type')
  if mtype == 'chat_message':
      conversation_id = payload.get('conversation_id', f"team-chat-{org_id}")
      content = (payload.get('content') or '').strip()
      if conversation_id == "team-chat":
          conversation_id = f"team-chat-{org_id}"
      if content:
          conversation = <resolve or create, else continue>
          if user_data['id'] not in conversation.get('participants', []):
              continue
          message_id = str(uuid.uuid4())
          created_at = datetime.utcnow().isoformat()
          message = {'id': message_id, 'content': content, 'author_id': user_data['id'],
                     'author_name': user_data['name'], 'author_avatar': user_data['avatar'],
                     'conversation_id': conversation_id, 'created_at': created_at,
                     'type': 'message'}
          conversation_messages_db[message_id] = message
          save_conversation_message(message)
          <bump the conversation>
          await broadcast_to_conversation(conversation_id,
              {'type': 'chat_message', 'message': message, 'conversation_id': conversation_id})
  elif mtype == 'chat_typing':
      conversation_id = payload.get('conversation_id', f"team-chat-{org_id}")
      is_typing = payload.get('is_typing', False)
      await broadcast_to_conversation(conversation_id,
          {'type': 'chat_typing', 'conversation_id': conversation_id,
           'user_id': user_data['id'], 'user_name': user_data['name'],
           'is_typing': is_typing},
          exclude_websocket=websocket)
  \<close>
\<close>

datatype frame = Unparsable | NonObject | Payload pydict

datatype session = Open | Closed

definition payload_conversation_id :: "pydict \<Rightarrow> string \<Rightarrow> pyval" where
  "payload_conversation_id payload org_id =
     (if dict_has payload ''conversation_id'' then dict_get payload ''conversation_id''
      else PyStr (team_chat_id org_id))"

definition chat_message_frame ::
  "(websocket \<Rightarrow> bool) \<Rightarrow> string \<Rightarrow> datetime \<Rightarrow> server \<Rightarrow> user \<Rightarrow> pydict
   \<Rightarrow> server \<times> delivery list \<times> session" where
  "chat_message_frame send_ok fresh_uuid now st user_data payload =
     (let org_id = user_organization_id user_data;
          conversation_id0 = payload_conversation_id payload org_id
      in case py_or (dict_get payload ''content'') (PyStr []) of
           PyStr raw \<Rightarrow>
             (let content = strip raw;
                  conversation_id1 = (if conversation_id0 = PyStr ''team-chat''
                                      then PyStr (team_chat_id org_id) else conversation_id0)
              in if content = [] then (st, [], Open)
                 else
                   (case conversation_id1 of
                      PyStr cid \<Rightarrow>
                        (case resolve_or_create now st org_id cid of
                           None \<Rightarrow> (st, [], Open)
                         | Some (st1, conversation, conversation_id) \<Rightarrow>
                             if user_id user_data \<notin> set (conv_participants conversation)
                               then (st1, [], Open)
                             else
                               (let message_id = fresh_uuid;
                                    created_at = isoformat now;
                                    message = new_message message_id content user_data
                                                conversation_id created_at;
                                    st2 = st1\<lparr>conversation_messages_db :=
                                               AList.update message_id message
                                                 (conversation_messages_db st1)\<rparr>;
                                    st3 = save_conversation_message now st2 message;
                                    st4 = bump_conversation st3 conversation_id conversation
                                            created_at;
                                    (st5, deliveries) =
                                      broadcast_to_conversation send_ok st4 conversation_id
                                        [(''type'', Scalar (PyStr ''chat_message'')),
                                         (''message'', Nested message),
                                         (''conversation_id'', Scalar (PyStr conversation_id))]
                                        None
                                in (st5, deliveries, Open)))
                    | _ \<Rightarrow> (st, [], Closed)))
         | _ \<Rightarrow> (st, [], Closed))"

definition chat_typing_frame ::
  "(websocket \<Rightarrow> bool) \<Rightarrow> server \<Rightarrow> websocket \<Rightarrow> user \<Rightarrow> pydict
   \<Rightarrow> server \<times> delivery list \<times> session" where
  "chat_typing_frame send_ok st ws user_data payload =
     (let conversation_id = payload_conversation_id payload (user_organization_id user_data);
          is_typing = (if dict_has payload ''is_typing'' then dict_get payload ''is_typing''
                       else PyBool False)
      in case conversation_id of
           PyStr cid \<Rightarrow>
             (case broadcast_to_conversation send_ok st cid
                     [(''type'', Scalar (PyStr ''chat_typing'')),
                      (''conversation_id'', Scalar conversation_id),
                      (''user_id'', Scalar (PyStr (user_id user_data))),
                      (''user_name'', Scalar (PyStr (user_name user_data))),
                      (''is_typing'', Scalar is_typing)]
                     (Some ws) of
                (st', deliveries) \<Rightarrow> (st', deliveries, Open))
         | _ \<Rightarrow> (st, [], Open))"

definition receive_frame ::
  "(websocket \<Rightarrow> bool) \<Rightarrow> string \<Rightarrow> datetime \<Rightarrow> server \<Rightarrow> websocket \<Rightarrow> user \<Rightarrow> frame
   \<Rightarrow> server \<times> delivery list \<times> session" where
  "receive_frame send_ok fresh_uuid now st ws user_data fr =
     (case fr of
        Unparsable \<Rightarrow> (st, [], Open)
      | NonObject \<Rightarrow> (st, [], Closed)
      | Payload payload \<Rightarrow>
          if dict_get payload ''type'' = PyStr ''chat_message''
            then chat_message_frame send_ok fresh_uuid now st user_data payload
          else if dict_get payload ''type'' = PyStr ''chat_typing''
            then chat_typing_frame send_ok st ws user_data payload
          else (st, [], Open))"

text \<open>
  \<^verbatim>\<open>
  async def delete_message(message_id, current_user):
      try:
          message = conversation_messages_db.get(message_id)
          if not message:
              raise HTTPException(404, "Message not found")
          if message['author_id'] != current_user['id']:
              user_role = current_user.get('role', 'developer')
              if user_role not in ['admin', 'manager']:
                  raise HTTPException(403, "You can only delete your own messages")
          conversation_id = message['conversation_id']
          conversation = conversations_db.get(conversation_id)
          if not conversation or current_user['id'] not in conversation.get('participants', []):
              raise HTTPException(403, "Access denied")
          del conversation_messages_db[message_id]
          delete_conversation_message(message_id)
          try:
              await broadcast_to_conversation(conversation_id,
                  {'type': 'message_deleted', 'message_id': message_id,
                   'conversation_id': conversation_id, 'deleted_by': current_user['id']})
          except Exception as e: ...
          return {"success": True, "message": "Message deleted successfully"}
      except HTTPException: raise
      except Exception as e:
          raise HTTPException(500, detail=f"Failed to delete message: {str(e)}")
  \<close>
\<close>

definition delete_message ::
  "(websocket \<Rightarrow> bool) \<Rightarrow> server \<Rightarrow> string \<Rightarrow> user
   \<Rightarrow> server \<times> (http_error + unit) \<times> delivery list" where
  "delete_message send_ok st message_id current_user =
     (case map_of (conversation_messages_db st) message_id of
        None \<Rightarrow> (st, Inl (HTTPException 404 ''Message not found''), [])
      | Some message \<Rightarrow>
          if message = [] then (st, Inl (HTTPException 404 ''Message not found''), [])
          else if \<not> dict_has message ''author_id''
            then (st, Inl (ServerError ''Failed to delete message: '' KeyError), [])
          else if dict_get message ''author_id'' \<noteq> PyStr (user_id current_user)
                  \<and> user_role current_user \<notin> {''admin'', ''manager''}
            then (st, Inl (HTTPException 403 ''You can only delete your own messages''), [])
          else if \<not> dict_has message ''conversation_id''
            then (st, Inl (ServerError ''Failed to delete message: '' KeyError), [])
          else
            (let conversation_id = dict_get message ''conversation_id''
             in case (conversation_id, lookup_conversation st conversation_id) of
                  (PyStr cid, Some conversation) \<Rightarrow>
                    if user_id current_user \<notin> set (conv_participants conversation)
                      then (st, Inl (HTTPException 403 ''Access denied''), [])
                    else
                      (let st1 = st\<lparr>conversation_messages_db :=
                                      AList.delete message_id (conversation_messages_db st)\<rparr>;
                           st2 = fst (delete_conversation_message st1 message_id);
                           (st3, deliveries) =
                             broadcast_to_conversation send_ok st2 cid
                               [(''type'', Scalar (PyStr ''message_deleted'')),
                                (''message_id'', Scalar (PyStr message_id)),
                                (''conversation_id'', Scalar conversation_id),
                                (''deleted_by'', Scalar (PyStr (user_id current_user)))]
                               None
                       in (st3, Inr (), deliveries))
                | _ \<Rightarrow> (st, Inl (HTTPException 403 ''Access denied''), [])))"


text \<open>
  The record of a message as the HTTP handler leaves it in \<^verbatim>\<open>conversation_messages_db\<close>
  and in the file: the dict it built, with the fields normalisation adds.
\<close>

definition stored_message ::
  "string \<Rightarrow> string \<Rightarrow> user \<Rightarrow> string \<Rightarrow> string \<Rightarrow> pydict" where
  "stored_message message_id content author conversation_id created_at =
     new_message message_id content author conversation_id created_at
     @ [(''message_type'', PyStr ''text''),
        (''sender_id'', PyStr (user_id author)), (''sender_name'', PyStr (user_name author)),
        (''sender_avatar'', PyStr (user_avatar author)), (''edited'', PyBool False)]"



text \<open>Every conversation is stored under its own id, as all writers of the table do.\<close>

definition ids_are_keys :: "server \<Rightarrow> bool" where
  "ids_are_keys st \<longleftrightarrow> list_all (\<lambda>(k, c). conv_id c = k) (conversations_db st)"

text \<open>
  The profile picture \<^verbatim>\<open>build_message_response\<close> finds for a sender with no picture in
  the record, and the response the HTTP handler returns for the message it stored (after
  \<^verbatim>\<open>model_copy\<close>).
\<close>

definition picture_of :: "server \<Rightarrow> user \<Rightarrow> string option" where
  "picture_of st author =
     (if user_id author = [] then None
      else (case map_of (users_db st) (user_id author) of
              None \<Rightarrow> None
            | Some sender \<Rightarrow> user_profile_picture sender))"

definition sent_response :: "server \<Rightarrow> string \<Rightarrow> string \<Rightarrow> user \<Rightarrow> string \<Rightarrow> string \<Rightarrow> message_response" where
  "sent_response st message_id content author conversation_id created_at =
     \<lparr>resp_id = message_id, resp_content = content, resp_sender_id = user_id author,
      resp_sender_name = user_name author, resp_sender_avatar = user_avatar author,
      resp_sender_profile_picture =
        (if (picture_of st author = None \<or> picture_of st author = Some [])
            \<and> user_profile_picture author \<noteq> None \<and> user_profile_picture author \<noteq> Some []
         then user_profile_picture author else picture_of st author),
      resp_conversation_id = conversation_id,
      resp_created_at = created_at, resp_message_type = ''text'',
      resp_edited = False, resp_reply_to = None\<rparr>"


section \<open>The database route for creating conversations (src/api/chat\_routes.py)\<close>

text \<open>
  The rows of the tables \<^verbatim>\<open>users\<close>, \<^verbatim>\<open>conversations\<close> and
  \<^verbatim>\<open>conversation_participants\<close> that the route reads and writes. A participant row
  is the pair of its conversation id and its user id.
\<close>

record user_row =
  row_user_id :: string
  row_organization_id :: string
  row_is_active :: bool

record conversation_row =
  row_conversation_id :: string
  row_type :: string
  row_name :: "string option"
  row_conversation_organization_id :: string

record database =
  user_rows :: "user_row list"
  conversation_rows :: "conversation_row list"
  participant_rows :: "(string \<times> string) list"

text \<open>\<^verbatim>\<open>ConversationCreate\<close>: the type is \<^verbatim>\<open>team\<close> or \<^verbatim>\<open>direct\<close>.\<close>

record conversation_create =
  create_type :: string
  create_participant_id :: "string option"
  create_name :: "string option"

text \<open>
  \<^verbatim>\<open>
  existing_conv = (
      db.query(Conversation)
      .join(ConversationParticipant, Conversation.id == ConversationParticipant.conversation_id)
      .filter(Conversation.type == "direct")
      .filter(Conversation.organization_id == current_user.organization_id)
      .group_by(Conversation.id)
      .having(func.count(ConversationParticipant.user_id) == 2,
              func.bool_and(or_(ConversationParticipant.user_id == current_user.id,
                                ConversationParticipant.user_id == conversation_data.participant_id)))
      .first())
  \<close>
  Some direct conversation of the organization whose participant rows are two in number
  and all belong to one of the two users.
\<close>

definition existing_direct ::
  "database \<Rightarrow> string \<Rightarrow> string \<Rightarrow> string \<Rightarrow> conversation_row option" where
  "existing_direct db organization_id current_id participant_id =
     find (\<lambda>c. row_type c = ''direct''
               \<and> row_conversation_organization_id c = organization_id
               \<and> (let rows = filter (\<lambda>(cid, uid). cid = row_conversation_id c)
                                  (participant_rows db)
                  in length rows = 2
                     \<and> list_all (\<lambda>(cid, uid). uid = current_id \<or> uid = participant_id) rows))
       (conversation_rows db)"

text \<open>
  \<^verbatim>\<open>
  async def create_conversation(conversation_data, current_user, db):
      if conversation_data.type == "direct":
          if not conversation_data.participant_id:
              raise HTTPException(400, "participant_id required for direct messages")
          existing_conv = <the query above>
          if existing_conv:
              raise HTTPException(400, "Direct conversation already exists")
          participant = db.query(User).filter(
              User.id == conversation_data.participant_id,
              User.organization_id == current_user.organization_id,
              User.is_active == True).first()
          if not participant:
              raise HTTPException(404, "Participant not found")
      conversation = Conversation(
          type=conversation_data.type,
          name=conversation_data.name or ("Team Chat" if conversation_data.type == "team" else None),
          organization_id=current_user.organization_id)
      db.add(conversation); db.flush()
      participants = [current_user.id]
      if conversation_data.type == "direct" and conversation_data.participant_id:
          participants.append(conversation_data.participant_id)
      elif conversation_data.type == "team":
          org_users = db.query(User).filter(User.organization_id == current_user.organization_id,
                                            User.is_active == True).all()
          participants = [user.id for user in org_users]
      for user_id in participants:
          db.add(ConversationParticipant(conversation_id=conversation.id, user_id=user_id))
      db.commit()
      return get_conversation_response(db, conversation.id, current_user.id)
  \<close>
  The primary key drawn for the new conversation is \<open>fresh_uuid\<close>; the result names the
  conversation created.
\<close>

definition routes_create_conversation ::
  "string \<Rightarrow> database \<Rightarrow> conversation_create \<Rightarrow> user_row \<Rightarrow> database \<times> (http_error + string)" where
  "routes_create_conversation fresh_uuid db conversation_data current_user =
     (let organization_id = row_organization_id current_user;
          rejected =
            (if create_type conversation_data = ''direct'' then
               (case create_participant_id conversation_data of
                  None \<Rightarrow> Some (HTTPException 400 ''participant_id required for direct messages'')
                | Some participant_id \<Rightarrow>
                    if existing_direct db organization_id (row_user_id current_user)
                         participant_id \<noteq> None
                      then Some (HTTPException 400 ''Direct conversation already exists'')
                    else if find (\<lambda>u. row_user_id u = participant_id
                                        \<and> row_organization_id u = organization_id
                                        \<and> row_is_active u) (user_rows db) = None
                      then Some (HTTPException 404 ''Participant not found'')
                    else None)
             else None)
      in case rejected of
           Some e \<Rightarrow> (db, Inl e)
         | None \<Rightarrow>
             (let conversation =
                    \<lparr>row_conversation_id = fresh_uuid, row_type = create_type conversation_data,
                     row_name = (case create_name conversation_data of
                                   Some n \<Rightarrow> if n \<noteq> [] then Some n
                                     else if create_type conversation_data = ''team''
                                       then Some ''Team Chat'' else None
                                 | None \<Rightarrow> if create_type conversation_data = ''team''
                                     then Some ''Team Chat'' else None),
                     row_conversation_organization_id = organization_id\<rparr>;
                  participants =
                    (if create_type conversation_data = ''direct''
                        \<and> create_participant_id conversation_data \<noteq> None
                     then [row_user_id current_user, the (create_participant_id conversation_data)]
                     else if create_type conversation_data = ''team''
                     then map row_user_id
                            (filter (\<lambda>u. row_organization_id u = organization_id \<and> row_is_active u)
                               (user_rows db))
                     else [row_user_id current_user])
              in (db\<lparr>conversation_rows := conversation_rows db @ [conversation],
                     participant_rows := participant_rows db
                                         @ map (\<lambda>uid. (fresh_uuid, uid)) participants\<rparr>,
                  Inr fresh_uuid)))"


section \<open>Example states\<close>

text \<open>One user of one organization with two sockets open (two devices), the handles 101 and 102.\<close>

definition alice :: user where
  "alice = \<lparr>user_id = ''alice'', user_name = ''Alice'', user_avatar = ''A'',
             user_organization_id = ''org1'', user_role = ''developer'',
             user_profile_picture = None\<rparr>"

definition two_sockets :: hub where
  "two_sockets =
     fst (add_chat_connection (fst (add_chat_connection empty_hub ''org1'' 101 alice))
            ''org1'' 102 alice)"


text \<open>The connection record of one of Alice's sockets.\<close>

definition sock :: "websocket \<Rightarrow> connection" where
  "sock ws = \<lparr>conn_websocket = ws, conn_user_id = ''alice'', conn_user_name = ''Alice'', conn_user_avatar = ''A''\<rparr>"


text \<open>
  An organization of three users. Alice opens a direct conversation with Bob; then Bob
  opens one with Alice; then all three connect a socket each.
\<close>

definition bob :: user where
  "bob = \<lparr>user_id = ''bob'', user_name = ''Bob'', user_avatar = ''B'',
           user_organization_id = ''org1'', user_role = ''developer'',
           user_profile_picture = None\<rparr>"

definition carol :: user where
  "carol = \<lparr>user_id = ''carol'', user_name = ''Carol'', user_avatar = ''C'',
             user_organization_id = ''org1'', user_role = ''developer'',
             user_profile_picture = None\<rparr>"

definition noon :: datetime where
  "noon = \<lparr>dt_year = 2025, dt_month = 3, dt_day = 14, dt_hour = 12, dt_minute = 0,
            dt_second = 0, dt_microsecond = 0\<rparr>"

definition org1_server :: server where
  "org1_server =
     \<lparr>active_chat_connections = Map.empty, presence_counters = Map.empty,
      sse_connections = Map.empty,
      users_db = [(''alice'', alice), (''bob'', bob), (''carol'', carol)],
      conversations_db = [], conversation_messages_db = [],
      user_conversations_db = Map.empty, conversations_file = None, messages_file = None\<rparr>"

definition direct_request :: "string \<Rightarrow> create_conversation_request" where
  "direct_request other =
     \<lparr>req_id = None, req_type = DIRECT, req_participants = [other], req_name = None\<rparr>"

definition first_dm :: "server \<times> (http_error + conversation)" where
  "first_dm = create_conversation ''uuid-1'' noon org1_server (direct_request ''bob'') alice"

definition second_dm :: "server \<times> (http_error + conversation)" where
  "second_dm = create_conversation ''uuid-2'' noon (fst first_dm) (direct_request ''alice'') bob"

definition three_online :: server where
  "three_online =
     fst (add_chat_connection
            (fst (add_chat_connection
                    (fst (add_chat_connection (fst first_dm) ''org1'' 101 alice))
                    ''org1'' 102 bob))
            ''org1'' 103 carol)"

definition typing_note :: event where
  "typing_note = [(''type'', Scalar (PyStr ''chat_typing'')),
                  (''user_id'', Scalar (PyStr ''alice'')),
                  (''is_typing'', Scalar (PyBool True))]"


text \<open>The direct conversation the two requests produce, under its id and in the order of its participants.\<close>

definition dm :: "string \<Rightarrow> string \<Rightarrow> string list \<Rightarrow> conversation" where
  "dm i n ps = \<lparr>conv_id = i, conv_type = ''direct'', conv_name = n, conv_participants = ps,
               conv_organization_id = ''org1'', conv_created_at = ''2025-03-14T12:00:00'',
               conv_updated_at = ''2025-03-14T12:00:00''\<rparr>"

definition member_socket :: "websocket \<Rightarrow> user \<Rightarrow> connection" where
  "member_socket ws u = \<lparr>conn_websocket = ws, conn_user_id = user_id u,
                         conn_user_name = user_name u, conn_user_avatar = user_avatar u\<rparr>"


text \<open>
  With the three users connected, Alice posts to the conversation with Bob (the content
  padded with blanks), and a minute later Bob answers.
\<close>

definition minute_later :: datetime where
  "minute_later = noon\<lparr>dt_minute := 1\<rparr>"

definition hello_sent :: "server \<times> (http_error + message_response) \<times> delivery list" where
  "hello_sent =
     send_chat_message (\<lambda>ws. True) ''m-1'' noon three_online
       \<lparr>msg_content = ''  hello '', msg_conversation_id = Some ''uuid-1''\<rparr> alice"

definition answer_sent :: "server \<times> (http_error + message_response) \<times> delivery list" where
  "answer_sent =
     send_chat_message (\<lambda>ws. True) ''m-2'' minute_later (fst hello_sent)
       \<lparr>msg_content = ''hi'', msg_conversation_id = Some ''uuid-1''\<rparr> bob"




text \<open>
  A conversation table in which the team conversation of the organization sits under its
  key with an empty id. Alice posts to a conversation id that starts with the team id and
  is not in the table.
\<close>

definition misfiled_team :: conversation where
  "misfiled_team = \<lparr>conv_id = [], conv_type = ''team'', conv_name = ''Team Chat'',
                     conv_participants = [''alice'', ''bob'', ''carol''],
                     conv_organization_id = ''org1'',
                     conv_created_at = ''2025-03-14T12:00:00'',
                     conv_updated_at = ''2025-03-14T12:00:00''\<rparr>"

definition misfiled_store :: server where
  "misfiled_store = three_online\<lparr>conversations_db := [(''team-chat-org1'', misfiled_team)]\<rparr>"

definition misfiled_sent :: "server \<times> (http_error + message_response) \<times> delivery list" where
  "misfiled_sent =
     send_chat_message (\<lambda>ws. True) ''m-1'' noon misfiled_store
       \<lparr>msg_content = ''hello'', msg_conversation_id = Some ''team-chat-org1-all''\<rparr> alice"


section \<open>Properties of the presence counters\<close>

lemma get_count_update: "get_count (AList.update u c org) u = c"
  by (simp add: get_count_def update_conv')

lemma get_count_update_other: "v \<noteq> u \<Longrightarrow> get_count (AList.update u c org) v = get_count org v"
  by (simp add: get_count_def update_conv')

lemma get_count_delete: "get_count (AList.delete u org) u = 0"
  by (simp add: get_count_def delete_conv')

lemma get_count_Nil: "get_count [] u = 0"
  by (simp add: get_count_def)

lemma get_count_absent:
  assumes "u \<notin> fst ` set org"
  shows "get_count org u = 0"
proof -
  from assms have "map_of org u = None" by (simp add: map_of_eq_None_iff)
  then show ?thesis by (simp add: get_count_def)
qed

lemma get_count_positive:
  assumes "\<forall>(u, c) \<in> set org. 1 \<le> c" and "get_count org u = 0"
  shows "u \<notin> fst ` set org"
proof
  assume "u \<in> fst ` set org"
  then obtain c where c: "map_of org u = Some c"
    by (metis map_of_eq_None_iff not_Some_eq)
  then have "(u, c) \<in> set org" by (rule map_of_SomeD)
  with assms(1) have "1 \<le> c" by auto
  with c assms(2) show False by (simp add: get_count_def)
qed

lemma positive_update:
  assumes "\<forall>(u, c) \<in> set org. (1::int) \<le> c" and "1 \<le> c'"
  shows "\<forall>(u, c) \<in> set (AList.update k c' org). 1 \<le> c"
  using assms by (induction org) (auto split: if_splits)

lemma positive_delete:
  assumes "\<forall>(u, c) \<in> set org. (1::int) \<le> c"
  shows "\<forall>(u, c) \<in> set (AList.delete k org). 1 \<le> c"
  using assms by (auto simp: AList.delete_eq)

lemma get_count_nonneg:
  assumes "\<forall>(u, c) \<in> set org. (1::int) \<le> c"
  shows "0 \<le> get_count org u"
proof (cases "map_of org u")
  case None
  then show ?thesis by (simp add: get_count_def)
next
  case (Some c)
  then have "(u, c) \<in> set org" by (rule map_of_SomeD)
  with assms have "1 \<le> c" by auto
  with Some show ?thesis by (simp add: get_count_def)
qed

lemma positive_counts_increment:
  assumes "positive_counts pc"
  shows "positive_counts (fst (increment_presence pc organization_id uid))"
proof -
  let ?org = "case pc organization_id of None \<Rightarrow> [] | Some m \<Rightarrow> m"
  have org: "\<forall>(u, c) \<in> set ?org. 1 \<le> c"
  proof (cases "pc organization_id")
    case None
    then show ?thesis by simp
  next
    case (Some m)
    with assms show ?thesis by (auto simp: positive_counts_def)
  qed
  then have "0 \<le> get_count ?org uid" by (rule get_count_nonneg)
  then have "1 \<le> get_count ?org uid + 1" by simp
  with org have "\<forall>(u, c) \<in> set (AList.update uid (get_count ?org uid + 1) ?org). 1 \<le> c"
    by (rule positive_update)
  with assms show ?thesis
    unfolding positive_counts_def increment_presence_def Let_def by (simp split: if_splits)
qed

lemma positive_counts_decrement:
  assumes "positive_counts pc"
  shows "positive_counts (fst (decrement_presence pc organization_id uid))"
proof (cases "pc organization_id")
  case None
  with assms show ?thesis by (simp add: decrement_presence_def)
next
  case (Some org)
  with assms have org: "\<forall>(u, c) \<in> set org. 1 \<le> c"
    by (auto simp: positive_counts_def)
  have del: "\<forall>(u, c) \<in> set (AList.delete uid org). 1 \<le> c"
    using org by (rule positive_delete)
  have upd: "1 < get_count org uid \<Longrightarrow>
             \<forall>(u, c) \<in> set (AList.update uid (get_count org uid - 1) org). 1 \<le> c"
    using org by (intro positive_update) auto
  show ?thesis
    using assms Some del upd
    unfolding positive_counts_def decrement_presence_def Let_def
    by (auto split: if_splits)
qed

lemma reachable_positive_counts: "reachable_presence pc \<Longrightarrow> positive_counts pc"
proof (induction rule: reachable_presence.induct)
  case cleared
  show ?case by (simp add: positive_counts_def)
next
  case (incremented pc organization_id user_id)
  then show ?case by (simp add: positive_counts_increment)
next
  case (decremented pc organization_id user_id)
  then show ?case by (simp add: positive_counts_decrement)
qed

lemma decrement_returns:
  "snd (decrement_presence pc organization_id uid) \<longleftrightarrow> presence_count pc organization_id uid = 1"
  by (auto simp: decrement_presence_def presence_count_def Let_def get_count_def
           split: option.splits)

lemma decrement_count:
  "presence_count (fst (decrement_presence pc organization_id uid)) organization_id uid =
     (if presence_count pc organization_id uid \<le> 1 then 0
      else presence_count pc organization_id uid - 1)"
  by (cases "pc organization_id")
     (simp_all add: decrement_presence_def presence_count_def Let_def get_count_update
                    get_count_delete get_count_Nil)

lemma decrement_absent:
  assumes "positive_counts pc" and "presence_count pc organization_id uid = 0"
  shows "decrement_presence pc organization_id uid = (pc, False)"
proof (cases "pc organization_id")
  case None
  then show ?thesis by (simp add: decrement_presence_def)
next
  case (Some org)
  with assms(1) have org: "\<forall>(u, c) \<in> set org. 1 \<le> c"
    by (auto simp: positive_counts_def)
  from Some assms(2) have zero: "get_count org uid = 0"
    by (simp add: presence_count_def)
  with org have "uid \<notin> fst ` set org" by (rule get_count_positive)
  then have "AList.delete uid org = org" by simp
  with Some zero show ?thesis
    by (auto simp: decrement_presence_def Let_def)
qed


text \<open>
  C3. For every organization and user, in whatever state the counters are,
  \<^verbatim>\<open>_increment_presence\<close> returns True exactly when the count of that pair was 0 before the
  call (a missing organization or a missing user reads as 0), and afterwards the count of
  the pair is one more than before.
\<close>

theorem increment_presence_first_connection:
  "snd (increment_presence pc organization_id uid) = (presence_count pc organization_id uid = 0)
   \<and> presence_count (fst (increment_presence pc organization_id uid)) organization_id uid
       = presence_count pc organization_id uid + 1"
proof (cases "pc organization_id")
  case None
  then show ?thesis
    by (simp add: increment_presence_def presence_count_def get_count_def)
next
  case (Some org)
  then show ?thesis
    by (simp add: increment_presence_def presence_count_def Let_def get_count_update)
qed

text \<open>
  C4. In every state the counters can reach, \<^verbatim>\<open>_decrement_presence\<close> returns True
  exactly when the count of the pair was 1 before the call, and then the new count is 0;
  when the count is 0 (no entry for the organization or for the user) the call changes
  nothing and returns False; and from a count of 2 the first decrement returns False and
  the second returns True.
\<close>

theorem decrement_presence_went_offline:
  assumes "reachable_presence pc"
  shows "(snd (decrement_presence pc organization_id uid)
            \<longleftrightarrow> presence_count pc organization_id uid = 1)
       \<and> (snd (decrement_presence pc organization_id uid) \<longrightarrow>
            presence_count (fst (decrement_presence pc organization_id uid)) organization_id uid = 0)
       \<and> (presence_count pc organization_id uid = 0 \<longrightarrow>
            decrement_presence pc organization_id uid = (pc, False))
       \<and> (presence_count pc organization_id uid = 2 \<longrightarrow>
            \<not> snd (decrement_presence pc organization_id uid)
            \<and> snd (decrement_presence (fst (decrement_presence pc organization_id uid))
                      organization_id uid))"
proof -
  from assms have pos: "positive_counts pc" by (rule reachable_positive_counts)
  have ret: "snd (decrement_presence pc organization_id uid)
               \<longleftrightarrow> presence_count pc organization_id uid = 1"
    by (rule decrement_returns)
  have zero: "snd (decrement_presence pc organization_id uid) \<longrightarrow>
                presence_count (fst (decrement_presence pc organization_id uid)) organization_id uid = 0"
    by (simp add: decrement_returns decrement_count)
  have noop: "presence_count pc organization_id uid = 0 \<longrightarrow>
                decrement_presence pc organization_id uid = (pc, False)"
    using pos by (simp add: decrement_absent)
  have two: "presence_count pc organization_id uid = 2 \<longrightarrow>
               \<not> snd (decrement_presence pc organization_id uid)
               \<and> snd (decrement_presence (fst (decrement_presence pc organization_id uid))
                         organization_id uid)"
    by (simp add: decrement_returns decrement_count)
  from ret zero noop two show ?thesis by blast
qed

theorem decrement_presence_went_offline_witness:
  "reachable_presence (presence_counters two_sockets)
   \<and> presence_count (presence_counters two_sockets) ''org1'' ''alice'' = 2
   \<and> \<not> snd (decrement_presence (presence_counters two_sockets) ''org1'' ''alice'')
   \<and> snd (decrement_presence
            (fst (decrement_presence (presence_counters two_sockets) ''org1'' ''alice''))
            ''org1'' ''alice'')
   \<and> presence_count (presence_counters two_sockets) ''org1'' ''bob'' = 0
   \<and> decrement_presence (presence_counters two_sockets) ''org1'' ''bob''
       = (presence_counters two_sockets, False)"
proof -
  let ?one = "fst (increment_presence Map.empty ''org1'' ''alice'')"
  have pc: "presence_counters two_sockets = fst (increment_presence ?one ''org1'' ''alice'')"
    by (simp add: two_sockets_def add_chat_connection_def empty_hub_def alice_def
                  split_def Let_def)
  have "reachable_presence ?one"
    by (intro reachable_presence.intros)
  then have r: "reachable_presence (presence_counters two_sockets)"
    unfolding pc by (rule reachable_presence.incremented)
  have two: "presence_count (presence_counters two_sockets) ''org1'' ''alice'' = 2"
    by (simp add: pc increment_presence_def presence_count_def get_count_def)
  have none: "presence_count (presence_counters two_sockets) ''org1'' ''bob'' = 0"
    by (simp add: pc increment_presence_def presence_count_def get_count_def)
  from r two none
    decrement_presence_went_offline [OF r, of "''org1''" "''alice''"]
    decrement_presence_went_offline [OF r, of "''org1''" "''bob''"]
  show ?thesis by simp
qed


section \<open>Unregistering a socket twice\<close>

lemma remove_chat_connection_table_idempotent:
  "active_chat_connections
     (fst (remove_chat_connection (fst (remove_chat_connection h organization_id ws uid))
             organization_id ws uid))
   = active_chat_connections (fst (remove_chat_connection h organization_id ws uid))"
  by (cases "active_chat_connections h organization_id")
     (simp_all add: remove_chat_connection_def split_def Let_def)

lemma two_sockets_eq:
  "two_sockets = \<lparr>active_chat_connections = [''org1'' \<mapsto> [sock 101, sock 102]],
                   presence_counters = [''org1'' \<mapsto> [(''alice'', 2)]]\<rparr>"
  by (simp add: two_sockets_def add_chat_connection_def empty_hub_def alice_def sock_def
                  split_def Let_def increment_presence_def get_count_def)

lemma once_eq:
  "remove_chat_connection two_sockets ''org1'' 101 ''alice'' =
    (\<lparr>active_chat_connections = [''org1'' \<mapsto> [sock 102]],
                   presence_counters = [''org1'' \<mapsto> [(''alice'', 1)]]\<rparr>, False)"
  by (simp add: two_sockets_eq remove_chat_connection_def sock_def
                  split_def Let_def decrement_presence_def get_count_def)

lemma twice_eq:
  "remove_chat_connection \<lparr>active_chat_connections = [''org1'' \<mapsto> [sock 102]],
                   presence_counters = [''org1'' \<mapsto> [(''alice'', 1)]]\<rparr> ''org1'' 101 ''alice'' =
    (\<lparr>active_chat_connections = [''org1'' \<mapsto> [sock 102]],
                   presence_counters = Map.empty\<rparr>, True)"
  by (simp add: remove_chat_connection_def sock_def
                  split_def Let_def decrement_presence_def get_count_def)

text \<open>
  C5 as stated fails. Alice has sockets 101 and 102 open. Socket 101 is unregistered
  twice. The second call leaves the connection table as the first call left it (socket
  102 alone), but the presence count of Alice, who has another connection left, is
  decremented again, from 1 to 0, and the call returns True.
\<close>

theorem remove_chat_connection_duplicate_call:
  "(let once = fst (remove_chat_connection two_sockets ''org1'' 101 ''alice'');
        twice = remove_chat_connection once ''org1'' 101 ''alice''
    in active_chat_connections (fst twice) = active_chat_connections once
       \<and> map conn_websocket (the (active_chat_connections once ''org1'')) = [102]
       \<and> presence_count (presence_counters once) ''org1'' ''alice'' = 1
       \<and> presence_count (presence_counters (fst twice)) ''org1'' ''alice'' = 0
       \<and> snd twice)"
  unfolding Let_def once_eq fst_conv twice_eq
  by (simp add: presence_count_def get_count_def sock_def)


section \<open>Properties of message normalisation\<close>

lemma map_of_dict_set: "map_of (dict_set d k v) = (map_of d)(k \<mapsto> v)"
  by (simp add: dict_set_def update_conv')

lemma dict_get_set: "dict_get (dict_set d k v) k' = (if k' = k then v else dict_get d k')"
  by (simp add: dict_get_def map_of_dict_set)

lemma dict_has_set: "dict_has (dict_set d k v) k' \<longleftrightarrow> k' = k \<or> dict_has d k'"
  by (simp add: dict_has_def map_of_dict_set)

lemma str_nat_nonempty: "str_nat n \<noteq> []"
  by (subst str_nat.simps) simp

lemma isoformat_sep_nonempty: "isoformat_sep sep d \<noteq> []"
  by (simp add: isoformat_sep_def)

lemma py_str_truthy: "truthy v \<Longrightarrow> py_str v \<noteq> []"
  by (cases v) (simp_all add: str_int_def str_nat_nonempty isoformat_sep_nonempty)

text \<open>What each block leaves alone.\<close>

lemma alias_keys_get:
  "k \<noteq> n \<Longrightarrow> k \<noteq> l \<Longrightarrow> dict_get (fst (alias_keys (n, l) x)) k = dict_get (fst x) k"
  by (cases x) (simp add: alias_keys_def Let_def dict_get_set)

lemma alias_keys_has:
  "k \<noteq> n \<Longrightarrow> k \<noteq> l \<Longrightarrow> dict_has (fst (alias_keys (n, l) x)) k = dict_has (fst x) k"
  by (cases x) (simp add: alias_keys_def Let_def dict_has_set)

lemma standardize_type_get:
  "k \<noteq> ''message_type'' \<Longrightarrow> k \<noteq> ''type'' \<Longrightarrow>
   dict_get (fst (standardize_type x)) k = dict_get (fst x) k"
  by (cases x) (simp add: standardize_type_def Let_def dict_get_set)

lemma standardize_type_has:
  "k \<noteq> ''message_type'' \<Longrightarrow> k \<noteq> ''type'' \<Longrightarrow>
   dict_has (fst (standardize_type x)) k = dict_has (fst x) k"
  by (cases x) (simp add: standardize_type_def Let_def dict_has_set)

lemma edited_flag_get:
  "k \<noteq> ''edited'' \<Longrightarrow> dict_get (fst (edited_flag x)) k = dict_get (fst x) k"
  by (cases x) (simp add: edited_flag_def dict_get_set)

lemma edited_flag_has:
  "k \<noteq> ''edited'' \<Longrightarrow> dict_has (fst (edited_flag x)) k = dict_has (fst x) k"
  by (cases x) (simp add: edited_flag_def dict_has_set)

lemma reply_to_alias_get:
  "k \<noteq> ''reply_to'' \<Longrightarrow> dict_get (fst (reply_to_alias x)) k = dict_get (fst x) k"
  by (cases x) (simp add: reply_to_alias_def dict_get_set)

lemma reply_to_alias_has:
  "k \<noteq> ''reply_to'' \<Longrightarrow> dict_has (fst (reply_to_alias x)) k = dict_has (fst x) k"
  by (cases x) (simp add: reply_to_alias_def dict_has_set)

lemma created_at_string_get:
  "k \<noteq> ''created_at'' \<Longrightarrow> dict_get (fst (created_at_string now x)) k = dict_get (fst x) k"
  by (cases x) (simp add: created_at_string_def dict_get_set split: pyval.splits)

lemma created_at_string_has:
  "k \<noteq> ''created_at'' \<Longrightarrow> dict_has (fst (created_at_string now x)) k = dict_has (fst x) k"
  by (cases x) (simp add: created_at_string_def dict_has_set split: pyval.splits)

lemma updated_at_string_get:
  "k \<noteq> ''updated_at'' \<Longrightarrow> dict_get (fst (updated_at_string x)) k = dict_get (fst x) k"
  by (cases x) (simp add: updated_at_string_def dict_get_set split: pyval.splits)

lemma updated_at_string_has:
  "k \<noteq> ''updated_at'' \<Longrightarrow> dict_has (fst (updated_at_string x)) k = dict_has (fst x) k"
  by (cases x) (simp add: updated_at_string_def dict_has_set split: pyval.splits)

lemmas normalize_frames =
  alias_keys_get alias_keys_has standardize_type_get standardize_type_has
  edited_flag_get edited_flag_has reply_to_alias_get reply_to_alias_has
  created_at_string_get created_at_string_has updated_at_string_get updated_at_string_has

text \<open>What each block establishes.\<close>

lemma alias_keys_aliased: "n \<noteq> l \<Longrightarrow> aliased (fst (alias_keys (n, l) x)) n l"
  by (cases x) (auto simp: alias_keys_def Let_def dict_get_set aliased_def)

lemma standardize_type_truthy:
  "truthy (dict_get (fst (standardize_type x)) ''message_type'')
   \<and> truthy (dict_get (fst (standardize_type x)) ''type'')"
  by (cases x) (auto simp: standardize_type_def Let_def dict_get_set py_str_truthy)

lemma edited_flag_present: "dict_has (fst (edited_flag x)) ''edited''"
  by (cases x) (simp add: edited_flag_def dict_has_set)

lemma reply_to_alias_done:
  "dict_has (fst (reply_to_alias x)) ''reply_to''
   \<or> \<not> truthy (dict_get (fst (reply_to_alias x)) ''parent_message_id'')"
  by (cases x) (auto simp: reply_to_alias_def dict_has_set dict_get_set)

lemma created_at_string_done:
  "\<not> is_datetime (dict_get (fst (created_at_string now x)) ''created_at'')
   \<and> truthy (dict_get (fst (created_at_string now x)) ''created_at'')"
  by (cases x)
     (auto simp: created_at_string_def dict_get_set isoformat_def isoformat_sep_nonempty
           split: pyval.splits)

lemma updated_at_string_done:
  "\<not> is_datetime (dict_get (fst (updated_at_string x)) ''updated_at'')"
  by (cases x) (auto simp: updated_at_string_def dict_get_set split: pyval.splits)

lemma normalized_fixed:
  assumes "normalized d"
  shows "normalize_message_record now d = (d, False)"
proof -
  from assms have a: "sender_aliases (d, False) = (d, False)"
    by (auto simp: normalized_def aliased_def sender_aliases_def alias_keys_def Let_def)
  from assms have t: "standardize_type (d, False) = (d, False)"
    by (simp add: normalized_def standardize_type_def Let_def)
  from assms have e: "edited_flag (d, False) = (d, False)"
    by (simp add: normalized_def edited_flag_def)
  from assms have r: "reply_to_alias (d, False) = (d, False)"
    by (auto simp: normalized_def reply_to_alias_def)
  from assms have c: "created_at_string now (d, False) = (d, False)"
    by (auto simp: normalized_def created_at_string_def split: pyval.splits)
  from assms have u: "updated_at_string (d, False) = (d, False)"
    by (auto simp: normalized_def updated_at_string_def split: pyval.splits)
  show ?thesis
    by (simp add: normalize_message_record_def a t e r c u)
qed

lemma normalize_normalized: "normalized (fst (normalize_message_record now d))"
proof -
  let ?a1 = "alias_keys (''sender_id'', ''author_id'') (d, False)"
  let ?a2 = "alias_keys (''sender_name'', ''author_name'') ?a1"
  let ?a3 = "alias_keys (''sender_avatar'', ''author_avatar'') ?a2"
  let ?t = "standardize_type ?a3"
  let ?e = "edited_flag ?t"
  let ?r = "reply_to_alias ?e"
  let ?c = "created_at_string now ?r"
  let ?u = "updated_at_string ?c"
  have n: "normalize_message_record now d = ?u"
    by (simp add: normalize_message_record_def sender_aliases_def)
  have 1: "aliased (fst ?u) ''sender_id'' ''author_id''"
    using alias_keys_aliased [of "''sender_id''" "''author_id''" "(d, False)"]
    by (simp add: aliased_def normalize_frames)
  have 2: "aliased (fst ?u) ''sender_name'' ''author_name''"
    using alias_keys_aliased [of "''sender_name''" "''author_name''" ?a1]
    by (simp add: aliased_def normalize_frames)
  have 3: "aliased (fst ?u) ''sender_avatar'' ''author_avatar''"
    using alias_keys_aliased [of "''sender_avatar''" "''author_avatar''" ?a2]
    by (simp add: aliased_def normalize_frames)
  have 4: "truthy (dict_get (fst ?u) ''message_type'') \<and> truthy (dict_get (fst ?u) ''type'')"
    using standardize_type_truthy [of ?a3] by (simp add: normalize_frames)
  have 5: "dict_has (fst ?u) ''edited''"
    using edited_flag_present [of ?t] by (simp add: normalize_frames)
  have 6: "dict_has (fst ?u) ''reply_to'' \<or> \<not> truthy (dict_get (fst ?u) ''parent_message_id'')"
    using reply_to_alias_done [of ?e] by (simp add: normalize_frames)
  have 7: "\<not> is_datetime (dict_get (fst ?u) ''created_at'') \<and> truthy (dict_get (fst ?u) ''created_at'')"
    using created_at_string_done [of now ?r] by (simp add: normalize_frames)
  have 8: "\<not> is_datetime (dict_get (fst ?u) ''updated_at'')"
    by (rule updated_at_string_done)
  from 1 2 3 4 5 6 7 8 show ?thesis
    unfolding n normalized_def by blast
qed

text \<open>
  C10. Normalising a message record a second time, at whatever time, returns the record
  the first call produced, unchanged, and the flag False.
\<close>

theorem normalize_message_record_idempotent:
  "normalize_message_record now' (fst (normalize_message_record now message))
     = (fst (normalize_message_record now message), False)"
  by (rule normalized_fixed) (rule normalize_normalized)


section \<open>Properties of the ConnectionManager\<close>

lemma cm_disconnect_idempotent:
  "fst (cm_disconnect (fst (cm_disconnect m uid)) uid) = fst (cm_disconnect m uid)"
  by (simp add: cm_disconnect_def Let_def option.map_comp comp_def)

lemma cm_disconnect_not_typing:
  "uid \<notin> get_typing_users (fst (cm_disconnect m uid)) conversation_id"
  by (cases "cm_typing_users m conversation_id")
     (simp_all add: cm_disconnect_def get_typing_users_def Let_def)

lemma set_map_filter_iff:
  "y \<in> set (List.map_filter f xs) \<longleftrightarrow> (\<exists>x \<in> set xs. f x = Some y)"
  by (induction xs) (auto split: option.splits)

lemma typing_frame_adds:
  "conversation_id \<noteq> [] \<Longrightarrow>
   uid \<in> get_typing_users (typing_frame m (conversation_id, uid, True)) conversation_id"
  by (simp add: typing_frame_def set_typing_status_def get_typing_users_def Let_def)

text \<open>
  The manager's own conversation broadcast writes to sockets of participants only, and
  to every connected participant that is not excluded and whose socket accepts the write.
\<close>

lemma cm_broadcast_to_conversation_participants_only:
  assumes "(ws, ev) \<in> set (snd (cm_broadcast_to_conversation send_ok m participants message
                                    exclude_user))"
  shows "\<exists>uid \<in> set participants. cm_active_connections m uid = Some ws"
  using assms
  by (auto simp: cm_broadcast_to_conversation_def Let_def set_map_filter_iff split: if_splits)

lemma cm_broadcast_to_conversation_reaches:
  assumes "uid \<in> set participants" and "cm_active_connections m uid = Some ws"
    and "Some uid \<noteq> exclude_user" and "send_ok ws"
  shows "(ws, message) \<in> set (snd (cm_broadcast_to_conversation send_ok m participants message
                                        exclude_user))"
  using assms
proof -
  from assms(1,2,3) have
    "(uid, ws) \<in> set (List.map_filter
        (\<lambda>uid. if Some uid \<noteq> exclude_user
                then map_option (\<lambda>ws. (uid, ws)) (cm_active_connections m uid)
                else None)
        participants)"
    by (auto simp: set_map_filter_iff)
  with assms(4) show ?thesis
    by (force simp: cm_broadcast_to_conversation_def Let_def)
qed

text \<open>
  C6. Whatever typing events were processed before, for whatever users and
  conversations, once \<^verbatim>\<open>disconnect(user)\<close> has run the user is in the typing set of no
  conversation: \<^verbatim>\<open>get_typing_users\<close> never lists the user, with or without a
  stop-typing event.
\<close>

theorem disconnect_clears_typing:
  "uid \<notin> get_typing_users (fst (cm_disconnect (foldl typing_frame m events) uid))
            conversation_id"
  by (rule cm_disconnect_not_typing)


section \<open>Unregistering twice\<close>

lemma remove_chat_connection_counters:
  "presence_counters (fst (remove_chat_connection h organization_id ws uid))
     = fst (decrement_presence (presence_counters h) organization_id uid)
   \<and> snd (remove_chat_connection h organization_id ws uid)
     = snd (decrement_presence (presence_counters h) organization_id uid)"
  by (simp add: remove_chat_connection_def split_def Let_def)

text \<open>
  C5, amended. A second \<^verbatim>\<open>remove_chat_connection\<close> with the same socket leaves the
  connection table exactly as the first call left it, and a second
  \<^verbatim>\<open>ConnectionManager.disconnect\<close> of the same user leaves the manager's tables as
  the first left them. The presence counters are decremented by every call, registered
  socket or not: the duplicate call does to them what \<^verbatim>\<open>_decrement_presence\<close> does and
  returns what it returns, so the user's count after it is 0 when it was 0 or 1 after the
  first call, and one less otherwise.
\<close>

theorem remove_chat_connection_twice:
  "(let once = fst (remove_chat_connection h organization_id ws uid);
        twice = remove_chat_connection once organization_id ws uid;
        before = presence_count (presence_counters once) organization_id uid
    in active_chat_connections (fst twice) = active_chat_connections once
       \<and> presence_counters (fst twice)
           = fst (decrement_presence (presence_counters once) organization_id uid)
       \<and> snd twice = snd (decrement_presence (presence_counters once) organization_id uid)
       \<and> presence_count (presence_counters (fst twice)) organization_id uid
           = (if before \<le> 1 then 0 else before - 1)
       \<and> snd twice = (before = 1))
   \<and> fst (cm_disconnect (fst (cm_disconnect m user)) user) = fst (cm_disconnect m user)"
  unfolding Let_def
  using remove_chat_connection_table_idempotent [of h organization_id ws uid]
    remove_chat_connection_counters
      [of "fst (remove_chat_connection h organization_id ws uid)" organization_id ws uid]
    cm_disconnect_idempotent [of m user]
  by (simp add: decrement_count decrement_returns)


section \<open>Fan-out and conversation creation on the example organization\<close>

lemma isoformat_noon: "isoformat noon = ''2025-03-14T12:00:00''"
  by code_simp

lemma first_dm_eq:
  "first_dm =
     (org1_server\<lparr>conversations_db := [(''uuid-1'', dm ''uuid-1'' ''Bob'' [''bob'', ''alice''])],
        conversations_file := Some [dm ''uuid-1'' ''Bob'' [''bob'', ''alice'']],
        user_conversations_db := [''bob'' \<mapsto> [''uuid-1''], ''alice'' \<mapsto> [''uuid-1'']]\<rparr>,
      Inr (dm ''uuid-1'' ''Bob'' [''bob'', ''alice'']))"
  by (simp add: first_dm_def create_conversation_def org1_server_def direct_request_def
        alice_def bob_def carol_def isoformat_noon save_conversation_data_def
        add_user_conversation_def Let_def dm_def)

lemma second_dm_eq:
  "second_dm =
     (org1_server\<lparr>conversations_db := [(''uuid-1'', dm ''uuid-1'' ''Bob'' [''bob'', ''alice'']),
                                        (''uuid-2'', dm ''uuid-2'' ''Alice'' [''alice'', ''bob''])],
        conversations_file := Some [dm ''uuid-1'' ''Bob'' [''bob'', ''alice''],
                                    dm ''uuid-2'' ''Alice'' [''alice'', ''bob'']],
        user_conversations_db := [''bob'' \<mapsto> [''uuid-1'', ''uuid-2''],
                                  ''alice'' \<mapsto> [''uuid-1'', ''uuid-2'']]\<rparr>,
      Inr (dm ''uuid-2'' ''Alice'' [''alice'', ''bob'']))"
  unfolding second_dm_def first_dm_eq fst_conv
  by (simp add: create_conversation_def org1_server_def direct_request_def
        alice_def bob_def carol_def isoformat_noon save_conversation_data_def
        add_user_conversation_def Let_def dm_def fun_upd_twist)

lemma three_online_eq:
  "three_online =
     org1_server\<lparr>conversations_db := [(''uuid-1'', dm ''uuid-1'' ''Bob'' [''bob'', ''alice''])],
        conversations_file := Some [dm ''uuid-1'' ''Bob'' [''bob'', ''alice'']],
        user_conversations_db := [''bob'' \<mapsto> [''uuid-1''], ''alice'' \<mapsto> [''uuid-1'']],
        active_chat_connections := [''org1'' \<mapsto> [member_socket 101 alice, member_socket 102 bob,
                                                 member_socket 103 carol]],
        presence_counters := [''org1'' \<mapsto> [(''alice'', 1), (''bob'', 1), (''carol'', 1)]]\<rparr>"
  unfolding three_online_def first_dm_eq fst_conv
  by (simp add: add_chat_connection_def increment_presence_def get_count_def org1_server_def
        member_socket_def alice_def bob_def carol_def Let_def)

text \<open>
  C2, evaluated on the code. Alice asks for a direct conversation with Bob, then Bob asks
  for one with Alice (no id in either request, so each gets a fresh uuid). Both calls
  succeed, and the organization then holds two direct conversations of the same pair.
\<close>

theorem create_conversation_duplicate_pair:
  "map_sum id conv_participants (snd first_dm) = Inr [''bob'', ''alice'']
   \<and> map_sum id conv_participants (snd second_dm) = Inr [''alice'', ''bob'']
   \<and> map (\<lambda>c. (conv_id c, conv_type c, conv_participants c))
        (direct_conversations (fst second_dm) ''org1'' ''alice'' ''bob'')
       = [(''uuid-1'', ''direct'', [''bob'', ''alice'']),
          (''uuid-2'', ''direct'', [''alice'', ''bob''])]"
  unfolding first_dm_eq second_dm_eq
  by (auto simp add: direct_conversations_def dm_def)

text \<open>
  C1, evaluated on the code. Alice, Bob and Carol of one organization are connected
  (sockets 101, 102, 103); the conversation uuid-1 is between Bob and Alice. A broadcast
  to that conversation is written to all three sockets: Carol, who is not a participant,
  receives the event.
\<close>

theorem broadcast_to_conversation_reaches_outsider:
  "map_option conv_participants (map_of (conversations_db three_online) ''uuid-1'')
     = Some [''bob'', ''alice'']
   \<and> map_option (map (\<lambda>c. (conn_websocket c, conn_user_id c)))
        (active_chat_connections three_online ''org1'')
       = Some [(101, ''alice''), (102, ''bob''), (103, ''carol'')]
   \<and> map fst (snd (broadcast_to_conversation (\<lambda>ws. True) three_online ''uuid-1''
                      typing_note None))
       = [Socket 101, Socket 102, Socket 103]"
  unfolding three_online_eq
  by (simp add: broadcast_to_conversation_def broadcast_to_organization_def broadcast_to_sse_def
        org1_server_def dm_def member_socket_def alice_def bob_def carol_def Let_def)


section \<open>Duplicate requests on the database route\<close>

text \<open>
  In the database route, once a direct conversation between two users of an organization
  has been created, a request for the same pair from either side is refused.
\<close>

lemma routes_create_conversation_refuses_pair:
  assumes fresh: "fresh_uuid \<notin> fst ` set (participant_rows db)"
    and same_org: "row_organization_id other_user = row_organization_id current_user"
    and created: "routes_create_conversation fresh_uuid db
                    \<lparr>create_type = ''direct'', create_participant_id = Some (row_user_id other_user),
                     create_name = n\<rparr> current_user = (db', Inr i)"
  shows "routes_create_conversation next_uuid db'
           \<lparr>create_type = ''direct'', create_participant_id = Some (row_user_id current_user),
            create_name = n'\<rparr> other_user
         = (db', Inl (HTTPException 400 ''Direct conversation already exists''))"
    and "routes_create_conversation next_uuid db'
           \<lparr>create_type = ''direct'', create_participant_id = Some (row_user_id other_user),
            create_name = n'\<rparr> current_user
         = (db', Inl (HTTPException 400 ''Direct conversation already exists''))"
proof -
  let ?org = "row_organization_id current_user"
  let ?a = "row_user_id current_user"
  let ?b = "row_user_id other_user"
  let ?c = "\<lparr>row_conversation_id = fresh_uuid, row_type = ''direct'',
             row_name = (case n of Some n \<Rightarrow> if n \<noteq> [] then Some n else None | None \<Rightarrow> None),
             row_conversation_organization_id = ?org\<rparr>"
  from created have db': "db' = db\<lparr>conversation_rows := conversation_rows db @ [?c],
                              participant_rows := participant_rows db
                                                  @ [(fresh_uuid, ?a), (fresh_uuid, ?b)]\<rparr>"
    by (auto simp: routes_create_conversation_def Let_def split: if_splits option.splits)
  from fresh have none: "filter (\<lambda>(cid, uid). cid = fresh_uuid) (participant_rows db) = []"
    by (force simp: filter_empty_conv)
  have rows: "filter (\<lambda>(cid, uid). cid = row_conversation_id ?c) (participant_rows db')
                = [(fresh_uuid, ?a), (fresh_uuid, ?b)]"
    unfolding db' by (simp add: none)
  have "?c \<in> set (conversation_rows db')"
    unfolding db' by simp
  moreover have "row_type ?c = ''direct''" "row_conversation_organization_id ?c = ?org"
    by simp_all
  ultimately have "\<exists>c \<in> set (conversation_rows db').
      row_type c = ''direct'' \<and> row_conversation_organization_id c = ?org
      \<and> (let rows = filter (\<lambda>(cid, uid). cid = row_conversation_id c) (participant_rows db')
         in length rows = 2 \<and> list_all (\<lambda>(cid, uid). uid = x \<or> uid = y) rows)"
    if "{x, y} = {?a, ?b}" for x y
    using rows that by (intro bexI [of _ ?c]) (auto simp: Let_def)
  then have found: "existing_direct db' ?org x y \<noteq> None" if "{x, y} = {?a, ?b}" for x y
    using that unfolding existing_direct_def find_None_iff by blast
  from found [of ?b ?a] same_org
  show "routes_create_conversation next_uuid db'
           \<lparr>create_type = ''direct'', create_participant_id = Some (row_user_id current_user),
            create_name = n'\<rparr> other_user
         = (db', Inl (HTTPException 400 ''Direct conversation already exists''))"
    by (auto simp: routes_create_conversation_def Let_def)
  from found [of ?a ?b]
  show "routes_create_conversation next_uuid db'
           \<lparr>create_type = ''direct'', create_participant_id = Some (row_user_id other_user),
            create_name = n'\<rparr> current_user
         = (db', Inl (HTTPException 400 ''Direct conversation already exists''))"
    by (auto simp: routes_create_conversation_def Let_def)
qed


section \<open>Blank messages\<close>

lemma strip_blank:
  assumes "\<forall>c \<in> set content. py_isspace c"
  shows "strip content = []"
proof -
  from assms have d: "dropWhile py_isspace content = []"
    by (induction content) auto
  show ?thesis unfolding strip_def d by simp
qed

lemma strip_empty_iff: "strip content = [] \<longleftrightarrow> (\<forall>c \<in> set content. py_isspace c)"
proof
  assume "strip content = []"
  then have "dropWhile py_isspace (rev (dropWhile py_isspace content)) = []"
    unfolding strip_def rev_is_Nil_conv .
  then have "\<forall>c \<in> set (dropWhile py_isspace content). py_isspace c"
    by (metis dropWhile_eq_Nil_conv set_rev)
  moreover have "dropWhile py_isspace content \<noteq> [] \<Longrightarrow> \<not> py_isspace (hd (dropWhile py_isspace content))"
    by (rule hd_dropWhile)
  ultimately have "dropWhile py_isspace content = []"
    by (metis hd_in_set)
  then show "\<forall>c \<in> set content. py_isspace c" by (metis dropWhile_eq_Nil_conv)
next
  assume "\<forall>c \<in> set content. py_isspace c"
  then show "strip content = []" by (rule strip_blank)
qed

text \<open>
  C7. A \<^verbatim>\<open>chat_message\<close> frame whose content is empty or all whitespace changes
  nothing: the state after the frame is the state before it (no message in the store or
  in the file, no conversation touched), nothing is delivered, and the receive loop goes
  on. The HTTP handler rejects the same content with a 400, state unchanged and nothing
  delivered.
\<close>

theorem blank_chat_message_rejected:
  assumes blank: "\<forall>c \<in> set content. py_isspace c"
    and mtype: "dict_get payload ''type'' = PyStr ''chat_message''"
    and body: "dict_get payload ''content'' = PyStr content"
  shows "receive_frame send_ok fresh_uuid now st ws user_data (Payload payload) = (st, [], Open)
       \<and> send_chat_message send_ok fresh_uuid now st
            \<lparr>msg_content = content, msg_conversation_id = conversation_id\<rparr> user_data
          = (st, Inl (HTTPException 400 ''Message content is required''), [])"
proof -
  from blank have s: "strip content = []" by (rule strip_blank)
  have "py_or (PyStr content) (PyStr []) = PyStr content \<or> py_or (PyStr content) (PyStr []) = PyStr []"
    by (simp add: py_or_def)
  then have frame: "chat_message_frame send_ok fresh_uuid now st user_data payload = (st, [], Open)"
    using s by (auto simp: chat_message_frame_def body Let_def strip_def)
  have http: "send_chat_message send_ok fresh_uuid now st
            \<lparr>msg_content = content, msg_conversation_id = conversation_id\<rparr> user_data
          = (st, Inl (HTTPException 400 ''Message content is required''), [])"
    using s by (simp add: send_chat_message_def Let_def)
  from frame http show ?thesis
    by (simp add: receive_frame_def mtype)
qed

theorem blank_chat_message_rejected_witness:
  "list_all py_isspace ''   ''
   \<and> receive_frame (\<lambda>ws. True) ''uuid-9'' noon three_online 101 alice
        (Payload [(''type'', PyStr ''chat_message''), (''conversation_id'', PyStr ''uuid-1''),
                  (''content'', PyStr ''   '')])
       = (three_online, [], Open)
   \<and> send_chat_message (\<lambda>ws. True) ''uuid-9'' noon three_online
        \<lparr>msg_content = ''   '', msg_conversation_id = Some ''uuid-1''\<rparr> alice
       = (three_online, Inl (HTTPException 400 ''Message content is required''), [])"
proof -
  have blank: "\<forall>c \<in> set ''   ''. py_isspace c"
    by (simp add: py_isspace_def)
  have mtype: "dict_get [(''type'', PyStr ''chat_message''), (''conversation_id'', PyStr ''uuid-1''),
                  (''content'', PyStr ''   '')] ''type'' = PyStr ''chat_message''"
    by (simp add: dict_get_def)
  have body: "dict_get [(''type'', PyStr ''chat_message''), (''conversation_id'', PyStr ''uuid-1''),
                  (''content'', PyStr ''   '')] ''content'' = PyStr ''   ''"
    by (simp add: dict_get_def)
  from blank have "list_all py_isspace ''   ''"
    by (simp add: list_all_iff)
  with blank_chat_message_rejected [OF blank mtype body]
  show ?thesis by blast
qed


section \<open>Deleting a message\<close>

lemma sort_key_short: "length xs \<le> 1 \<Longrightarrow> sort_key f xs = xs"
  by (cases xs) (auto simp: length_Suc_conv)

lemma filter_all_or_shorter:
  "\<not> length (filter P xs) < length xs \<Longrightarrow> filter P xs = xs"
proof (induction xs)
  case Nil
  then show ?case by simp
next
  case (Cons x xs)
  have le: "length (filter P xs) \<le> length xs" by simp
  show ?case
  proof (cases "P x")
    case True
    with Cons show ?thesis by simp
  next
    case False
    with Cons.prems le show ?thesis by simp
  qed
qed

lemma filter_out_distinct_key:
  assumes "distinct (map f xs)" and "v \<in> set (map f xs)"
  shows "length (filter (\<lambda>x. f x \<noteq> v) xs) + 1 = length xs"
  using assms
proof (induction xs)
  case Nil
  then show ?case by simp
next
  case (Cons x xs)
  show ?case
  proof (cases "f x = v")
    case True
    with Cons.prems have "v \<notin> set (map f xs)" by auto
    then have "filter (\<lambda>x. f x \<noteq> v) xs = xs" by (auto simp: filter_id_conv)
    with True show ?thesis by simp
  next
    case False
    with Cons show ?thesis by auto
  qed
qed

lemma filter_out_absent_key:
  assumes "v \<notin> set (map f xs)"
  shows "filter (\<lambda>x. f x \<noteq> v) xs = xs"
  using assms by (auto simp: filter_id_conv)

lemma py_sorted_by_filter:
  assumes "py_sorted_by key xs = Some ys"
  shows "py_sorted_by key (filter P xs) = Some (filter P ys)"
proof (cases "length xs \<le> 1")
  case True
  with assms have "ys = xs" by (simp add: py_sorted_by_def)
  moreover from True have "length (filter P xs) \<le> 1"
    using length_filter_le [of P xs] by linarith
  ultimately show ?thesis by (simp add: py_sorted_by_def)
next
  case long: False
  have sub: "list_all Q xs \<Longrightarrow> list_all Q (filter P xs)" for Q :: "'a \<Rightarrow> bool"
    by (auto simp: list_all_iff)
  have sorted_case: "py_sorted_by key (filter P xs) = Some (filter P (sort_key f xs))"
    if all: "list_all (\<lambda>x. g (key x) \<noteq> None) xs"
      and sel: "\<And>zs. 1 < length zs \<Longrightarrow> list_all (\<lambda>x. g (key x) \<noteq> None) zs \<Longrightarrow>
                   py_sorted_by key zs = Some (sort_key f zs)"
    for f :: "'a \<Rightarrow> 'k::linorder" and g :: "pyval \<Rightarrow> 'k option"
  proof (cases "length (filter P xs) \<le> 1")
    case True
    then have "sort_key f (filter P xs) = filter P xs" by (rule sort_key_short)
    then have "filter P (sort_key f xs) = filter P xs" by (simp add: filter_sort)
    with True show ?thesis by (simp add: py_sorted_by_def)
  next
    case False
    then have "1 < length (filter P xs)" by simp
    moreover from all have "list_all (\<lambda>x. g (key x) \<noteq> None) (filter P xs)" by (rule sub)
    ultimately have "py_sorted_by key (filter P xs) = Some (sort_key f (filter P xs))"
      by (rule sel)
    then show ?thesis by (simp add: filter_sort)
  qed
  have nonempty: "xs \<noteq> []" using long by auto
  have excl_str_num: "\<not> (list_all (\<lambda>x. str_key (key x) \<noteq> None) zs)"
    if "list_all (\<lambda>x. num_key (key x) \<noteq> None) zs" "1 < length zs" for zs
  proof -
    from that(2) obtain z where z: "z \<in> set zs" by (cases zs) auto
    with that(1) have "num_key (key z) \<noteq> None" by (auto simp: list_all_iff)
    then have "str_key (key z) = None" by (cases "key z") auto
    with z show ?thesis by (auto simp: list_all_iff)
  qed
  have excl_time: "\<not> (list_all (\<lambda>x. str_key (key x) \<noteq> None) zs)
                   \<and> \<not> (list_all (\<lambda>x. num_key (key x) \<noteq> None) zs)"
    if "list_all (\<lambda>x. time_key (key x) \<noteq> None) zs" "1 < length zs" for zs
  proof -
    from that(2) obtain z where z: "z \<in> set zs" by (cases zs) auto
    with that(1) have "time_key (key z) \<noteq> None" by (auto simp: list_all_iff)
    then have "str_key (key z) = None \<and> num_key (key z) = None" by (cases "key z") auto
    with z show ?thesis by (auto simp: list_all_iff)
  qed
  consider (s) "list_all (\<lambda>x. str_key (key x) \<noteq> None) xs"
    | (n) "list_all (\<lambda>x. num_key (key x) \<noteq> None) xs"
    | (t) "list_all (\<lambda>x. time_key (key x) \<noteq> None) xs"
    using assms long by (auto simp: py_sorted_by_def split: if_splits)
  then show ?thesis
  proof cases
    case s
    with assms long have ys: "ys = sort_key (\<lambda>x. the (str_key (key x))) xs"
      by (simp add: py_sorted_by_def)
    show ?thesis unfolding ys
      by (rule sorted_case [OF s]) (simp add: py_sorted_by_def)
  next
    case n
    from n long have ns: "\<not> list_all (\<lambda>x. str_key (key x) \<noteq> None) xs"
      by (intro excl_str_num) auto
    with assms long n have ys: "ys = sort_key (\<lambda>x. the (num_key (key x))) xs"
      by (simp add: py_sorted_by_def)
    show ?thesis unfolding ys
    proof (rule sorted_case [OF n])
      fix zs :: "'a list"
      assume "1 < length zs" "list_all (\<lambda>x. num_key (key x) \<noteq> None) zs"
      then show "py_sorted_by key zs = Some (sort_key (\<lambda>x. the (num_key (key x))) zs)"
        using excl_str_num [of zs] by (simp add: py_sorted_by_def)
    qed
  next
    case t
    from t long have nt: "\<not> list_all (\<lambda>x. str_key (key x) \<noteq> None) xs"
                         "\<not> list_all (\<lambda>x. num_key (key x) \<noteq> None) xs"
      using excl_time [of xs] by auto
    with assms long t have ys: "ys = sort_key (\<lambda>x. the (time_key (key x))) xs"
      by (simp add: py_sorted_by_def)
    show ?thesis unfolding ys
    proof (rule sorted_case [OF t])
      fix zs :: "'a list"
      assume "1 < length zs" "list_all (\<lambda>x. time_key (key x) \<noteq> None) zs"
      then show "py_sorted_by key zs = Some (sort_key (\<lambda>x. the (time_key (key x))) zs)"
        using excl_time [of zs] by (simp add: py_sorted_by_def)
    qed
  qed
qed


text \<open>A broadcast touches the connection table only.\<close>

lemma same_stores: "\<exists>table. (s::server) = s\<lparr>active_chat_connections := table\<rparr>"
  by (rule exI [of _ "active_chat_connections s"]) simp

lemma broadcast_to_organization_stores:
  "broadcast_to_organization send_ok st organization_id message exclude = (st', ds) \<Longrightarrow>
   \<exists>table. st' = st\<lparr>active_chat_connections := table\<rparr>"
  by (cases "active_chat_connections st organization_id")
     (auto simp: broadcast_to_organization_def Let_def intro: exI [of _ "active_chat_connections st"])

lemma broadcast_to_conversation_stores:
  assumes "broadcast_to_conversation send_ok st conversation_id message exclude = (st', ds)"
  shows "\<exists>table. st' = st\<lparr>active_chat_connections := table\<rparr>"
  using assms unfolding broadcast_to_conversation_def
  by (auto split: option.splits list.splits
           dest: broadcast_to_organization_stores simp: same_stores)

lemma delete_conversation_message_file:
  "stored_messages (fst (delete_conversation_message st message_id))
     = filter (\<lambda>m. dict_get m ''id'' \<noteq> PyStr message_id) (stored_messages st)"
  by (cases "messages_file st")
     (auto simp: delete_conversation_message_def stored_messages_def Let_def
                 filter_all_or_shorter)

lemma delete_conversation_message_memory:
  "conversation_messages_db (fst (delete_conversation_message st message_id))
     = conversation_messages_db st"
  by (cases "messages_file st") (auto simp: delete_conversation_message_def Let_def)

lemma delete_conversation_message_absent:
  assumes "PyStr message_id \<notin> set (map (\<lambda>m. dict_get m ''id'') (stored_messages st))"
  shows "delete_conversation_message st message_id = (st, False)"
proof (cases "messages_file st")
  case None
  then show ?thesis by (simp add: delete_conversation_message_def)
next
  case (Some ms)
  with assms have "PyStr message_id \<notin> set (map (\<lambda>m. dict_get m ''id'') ms)"
    by (simp add: stored_messages_def)
  then have "filter (\<lambda>m. dict_get m ''id'' \<noteq> PyStr message_id) ms = ms"
    by (rule filter_out_absent_key)
  with Some show ?thesis by (simp add: delete_conversation_message_def)
qed

lemma delete_message_missing:
  assumes "message_id \<notin> fst ` set (conversation_messages_db st)"
  shows "delete_message send_ok st message_id current_user
           = (st, Inl (HTTPException 404 ''Message not found''), [])"
proof -
  from assms have "map_of (conversation_messages_db st) message_id = None"
    by (simp add: map_of_eq_None_iff)
  then show ?thesis by (simp add: delete_message_def)
qed

lemma delete_message_done:
  assumes "delete_message send_ok st message_id current_user = (st', Inr (), deliveries)"
  shows "message_id \<in> fst ` set (conversation_messages_db st)
       \<and> conversation_messages_db st' = AList.delete message_id (conversation_messages_db st)
       \<and> stored_messages st'
           = filter (\<lambda>m. dict_get m ''id'' \<noteq> PyStr message_id) (stored_messages st)"
proof (cases "map_of (conversation_messages_db st) message_id")
  case None
  with assms show ?thesis by (simp add: delete_message_def)
next
  case (Some message)
  then have present: "message_id \<in> fst ` set (conversation_messages_db st)"
    by (metis map_of_eq_None_iff option.distinct(1))
  let ?st1 = "st\<lparr>conversation_messages_db :=
                    AList.delete message_id (conversation_messages_db st)\<rparr>"
  let ?st2 = "fst (delete_conversation_message ?st1 message_id)"
  from assms Some obtain cid ev where
    b: "broadcast_to_conversation send_ok ?st2 cid ev None = (st', deliveries)"
    by (auto simp: delete_message_def Let_def split_def
             split: if_splits pyval.splits option.splits prod.splits)
  then obtain table where st': "st' = ?st2\<lparr>active_chat_connections := table\<rparr>"
    using broadcast_to_conversation_stores by blast
  have db: "conversation_messages_db st' = AList.delete message_id (conversation_messages_db st)"
    unfolding st' by (simp add: delete_conversation_message_memory)
  have "stored_messages st' = stored_messages ?st2"
    unfolding st' by (simp add: stored_messages_def)
  also have "\<dots> = filter (\<lambda>m. dict_get m ''id'' \<noteq> PyStr message_id) (stored_messages ?st1)"
    by (rule delete_conversation_message_file)
  also have "stored_messages ?st1 = stored_messages st"
    by (simp add: stored_messages_def)
  finally show ?thesis using present db by simp
qed

text \<open>The file keeps its ids distinct: it is only written by an upsert on the id.\<close>

lemma upsert_keys:
  assumes "\<And>y. y \<in> set xs \<Longrightarrow> same y x \<longleftrightarrow> f y = f x"
  shows "set (map f (upsert same x xs)) = insert (f x) (set (map f xs))
       \<and> (distinct (map f xs) \<longrightarrow> distinct (map f (upsert same x xs)))"
  using assms
proof (induction xs)
  case Nil
  show ?case by simp
next
  case (Cons y ys)
  from Cons.prems have "\<And>z. z \<in> set ys \<Longrightarrow> same z x \<longleftrightarrow> f z = f x" by simp
  from Cons.IH [OF this] Cons.prems [of y] show ?case by auto
qed

lemma py_eq_strings: "py_eq (PyStr a) v \<longleftrightarrow> PyStr a = v"
  by (cases v) auto

lemma normalize_keeps_id:
  "dict_get (fst (normalize_message_record now m)) ''id'' = dict_get m ''id''"
  by (simp add: normalize_message_record_def sender_aliases_def normalize_frames)

lemma save_preserves_distinct_ids:
  assumes "distinct (map (\<lambda>m. dict_get m ''id'') (stored_messages st))"
    and "\<forall>m \<in> set (stored_messages st). str_key (dict_get m ''id'') \<noteq> None"
  shows "distinct (map (\<lambda>m. dict_get m ''id'') (stored_messages (save_conversation_message now st msg)))"
proof -
  let ?new = "fst (normalize_message_record now msg)"
  let ?same = "\<lambda>existing new. py_eq (dict_get existing ''id'') (dict_get new ''id'')"
  have "?same y ?new \<longleftrightarrow> dict_get y ''id'' = dict_get ?new ''id''"
    if "y \<in> set (stored_messages st)" for y
  proof -
    from that assms(2) obtain s where "dict_get y ''id'' = PyStr s"
      by (cases "dict_get y ''id''") auto
    then show ?thesis by (simp add: py_eq_strings)
  qed
  from upsert_keys [of "stored_messages st" ?same ?new "\<lambda>m. dict_get m ''id''", OF this] assms(1)
  have "distinct (map (\<lambda>m. dict_get m ''id'') (upsert ?same ?new (stored_messages st)))"
    by simp
  then show ?thesis
    by (simp add: save_conversation_message_def stored_messages_def Let_def)
qed

text \<open>
  C8. In a store whose message ids are distinct (dict keys in memory, upserted ids in the
  file), a successful \<^verbatim>\<open>delete_message\<close> removes exactly the entry of that id: the
  id is gone from \<^verbatim>\<open>conversation_messages_db\<close>, the table is the old one filtered
  (every other entry as it was, in the same order, one entry fewer), the file likewise,
  and the sorted history of every conversation is the old sorted history without that
  message. Deleting an id that is not stored answers 404 and changes nothing, and
  \<^verbatim>\<open>delete_conversation_message\<close> of an id that is not in the file leaves the file alone.
\<close>

theorem delete_message_removes_exactly_one:
  assumes keys: "distinct (map fst (conversation_messages_db st))"
    and ids: "distinct (map (\<lambda>m. dict_get m ''id'') (stored_messages st))"
    and res: "delete_message send_ok st message_id current_user = (st', result, deliveries)"
  shows "(result = Inr () \<longrightarrow>
            message_id \<in> fst ` set (conversation_messages_db st)
          \<and> message_id \<notin> fst ` set (conversation_messages_db st')
          \<and> conversation_messages_db st'
              = filter (\<lambda>(k, m). k \<noteq> message_id) (conversation_messages_db st)
          \<and> length (conversation_messages_db st') + 1 = length (conversation_messages_db st)
          \<and> stored_messages st'
              = filter (\<lambda>m. dict_get m ''id'' \<noteq> PyStr message_id) (stored_messages st)
          \<and> (PyStr message_id \<in> set (map (\<lambda>m. dict_get m ''id'') (stored_messages st)) \<longrightarrow>
               length (stored_messages st') + 1 = length (stored_messages st))
          \<and> (\<forall>conversation_id before.
                 py_sorted_by (\<lambda>(k, m). created_at_key m) (conversation_entries st conversation_id)
                   = Some before \<longrightarrow>
                 py_sorted_by (\<lambda>(k, m). created_at_key m) (conversation_entries st' conversation_id)
                   = Some (filter (\<lambda>(k, m). k \<noteq> message_id) before)))
       \<and> (message_id \<notin> fst ` set (conversation_messages_db st) \<longrightarrow>
            st' = st \<and> result = Inl (HTTPException 404 ''Message not found'') \<and> deliveries = [])
       \<and> (PyStr message_id \<notin> set (map (\<lambda>m. dict_get m ''id'') (stored_messages st)) \<longrightarrow>
            delete_conversation_message st message_id = (st, False))"
proof -
  have removed: ?thesis if ok: "result = Inr ()" and present: "message_id \<in> fst ` set (conversation_messages_db st)"
    and db: "conversation_messages_db st' = AList.delete message_id (conversation_messages_db st)"
    and fl: "stored_messages st'
           = filter (\<lambda>m. dict_get m ''id'' \<noteq> PyStr message_id) (stored_messages st)"
  proof -
    have flt: "conversation_messages_db st'
                 = filter (\<lambda>(k, m). k \<noteq> message_id) (conversation_messages_db st)"
      unfolding db AList.delete_eq by (rule filter_cong) auto
    have gone: "message_id \<notin> fst ` set (conversation_messages_db st')"
      unfolding db by (rule delete_notin_dom)
    have "(\<lambda>(k, m). k \<noteq> message_id) = (\<lambda>x::string \<times> pydict. fst x \<noteq> message_id)"
      by (simp add: fun_eq_iff)
    moreover have "length (filter (\<lambda>x. fst x \<noteq> message_id) (conversation_messages_db st)) + 1
            = length (conversation_messages_db st)"
      using keys present by (intro filter_out_distinct_key) auto
    ultimately have len: "length (conversation_messages_db st') + 1 = length (conversation_messages_db st)"
      unfolding flt by simp
    have flen: "PyStr message_id \<in> set (map (\<lambda>m. dict_get m ''id'') (stored_messages st)) \<longrightarrow>
               length (stored_messages st') + 1 = length (stored_messages st)"
      unfolding fl using ids by (auto intro!: filter_out_distinct_key [simplified])
    have entries: "conversation_entries st' c
                     = filter (\<lambda>(k, m). k \<noteq> message_id) (conversation_entries st c)" for c
      unfolding conversation_entries_def flt by (simp add: conj_commute)
    have query: "\<forall>conversation_id before.
                 py_sorted_by (\<lambda>(k, m). created_at_key m) (conversation_entries st conversation_id)
                   = Some before \<longrightarrow>
                 py_sorted_by (\<lambda>(k, m). created_at_key m) (conversation_entries st' conversation_id)
                   = Some (filter (\<lambda>(k, m). k \<noteq> message_id) before)"
      unfolding entries by (auto intro: py_sorted_by_filter)
    from ok present gone flt len fl flen query
      delete_conversation_message_absent [of message_id st]
    show ?thesis by blast
  qed
  show ?thesis
  proof (cases "message_id \<in> fst ` set (conversation_messages_db st)")
    case False
    from delete_message_missing [OF False, of send_ok current_user] res
    have "st' = st" "result = Inl (HTTPException 404 ''Message not found'')" "deliveries = []"
      by simp_all
    with False delete_conversation_message_absent [of message_id st]
    show ?thesis by simp
  next
    case present: True
    show ?thesis
    proof (cases "result = Inr ()")
      case True
      with res have "delete_message send_ok st message_id current_user = (st', Inr (), deliveries)"
        by simp
      from delete_message_done [OF this] True present show ?thesis
        by (intro removed) simp_all
    next
      case False
      with present delete_conversation_message_absent [of message_id st]
      show ?thesis by simp
    qed
  qed
qed


section \<open>Sending a message and reading it back\<close>

lemma isoformat_nonempty: "isoformat d \<noteq> []"
  by (simp add: isoformat_def isoformat_sep_nonempty)

lemma normalize_new_message:
  "normalize_message_record now
     (new_message message_id content author conversation_id (isoformat d)
        @ [(''message_type'', PyStr ''text'')])
   = (stored_message message_id content author conversation_id (isoformat d), True)"
  by (simp add: normalize_message_record_def new_message_def sender_aliases_def alias_keys_def
        standardize_type_def edited_flag_def reply_to_alias_def created_at_string_def
        updated_at_string_def dict_get_def dict_has_def dict_set_def Let_def isoformat_nonempty
        stored_message_def)

lemma normalize_stored_message:
  "normalize_message_record now
     (stored_message message_id content author conversation_id (isoformat d))
   = (stored_message message_id content author conversation_id (isoformat d), False)"
  using normalized_fixed
          [OF normalize_normalized
                [of now "new_message message_id content author conversation_id (isoformat d)
                           @ [(''message_type'', PyStr ''text'')]"], of now]
  by (simp add: normalize_new_message)

lemma build_stored_message:
  "build_message_response now st
      (stored_message message_id content author conversation_id (isoformat d))
    = (stored_message message_id content author conversation_id (isoformat d),
       Inr \<lparr>resp_id = message_id, resp_content = content, resp_sender_id = user_id author,
            resp_sender_name = user_name author, resp_sender_avatar = user_avatar author,
            resp_sender_profile_picture = picture_of st author,
            resp_conversation_id = conversation_id,
            resp_created_at = isoformat d, resp_message_type = ''text'',
            resp_edited = False, resp_reply_to = None\<rparr>)"
proof -
  let ?m = "stored_message message_id content author conversation_id (isoformat d)"
  have get: "dict_get ?m ''sender_id'' = PyStr (user_id author)"
    "dict_get ?m ''author_id'' = PyStr (user_id author)"
    "dict_get ?m ''sender_name'' = PyStr (user_name author)"
    "dict_get ?m ''author_name'' = PyStr (user_name author)"
    "dict_get ?m ''sender_avatar'' = PyStr (user_avatar author)"
    "dict_get ?m ''author_avatar'' = PyStr (user_avatar author)"
    "dict_get ?m ''sender_profile_picture'' = PyNone"
    "dict_get ?m ''created_at'' = PyStr (isoformat d)"
    "dict_get ?m ''message_type'' = PyStr ''text''"
    "dict_get ?m ''edited'' = PyBool False"
    "dict_get ?m ''content'' = PyStr content"
    "dict_get ?m ''reply_to'' = PyNone"
    "dict_get ?m ''id'' = PyStr message_id"
    "dict_get ?m ''conversation_id'' = PyStr conversation_id"
    "dict_has ?m ''content''" "dict_has ?m ''id''" "dict_has ?m ''conversation_id''"
    by (simp_all add: stored_message_def new_message_def dict_get_def dict_has_def)
  show ?thesis
    unfolding build_message_response_def normalize_stored_message fst_conv Let_def get
    by (simp add: get py_or_def isoformat_nonempty optional_value_def lookup_user_def
                  picture_of_def
             split: option.splits)
qed












lemma resolve_not_shorthand:
  "resolve_conversation_id org_id c \<noteq> [] \<and> resolve_conversation_id org_id c \<noteq> ''team-chat''"
  by (auto simp: resolve_conversation_id_def team_chat_id_def Let_def split: option.splits)


lemma team_chat_id_not_shorthand:
  "team_chat_id org_id \<noteq> [] \<and> team_chat_id org_id \<noteq> ''team-chat''"
  by (simp add: team_chat_id_def)

text \<open>What finding or creating the conversation leaves in the state.\<close>

lemma create_team_conversation_effect:
  assumes "create_team_conversation now st org_id = (st', conversation)"
  shows "users_db st' = users_db st
       \<and> conversation_messages_db st' = conversation_messages_db st
       \<and> messages_file st' = messages_file st
       \<and> active_chat_connections st' = active_chat_connections st
       \<and> map_of (conversations_db st') (team_chat_id org_id) = Some conversation"
  using assms
  by (cases "map_of (conversations_db st) (team_chat_id org_id)")
     (auto simp: create_team_conversation_def Let_def save_conversation_data_def update_conv')

lemma resolve_or_create_effect:
  assumes "resolve_or_create now st org_id c = Some (st', conversation, conversation_id)"
    and "ids_are_keys st" and "c \<noteq> []" and "c \<noteq> ''team-chat''"
  shows "users_db st' = users_db st
       \<and> conversation_messages_db st' = conversation_messages_db st
       \<and> map_of (conversations_db st') conversation_id = Some conversation
       \<and> conversation_id \<noteq> [] \<and> conversation_id \<noteq> ''team-chat''"
proof (cases "map_of (conversations_db st) c")
  case (Some found)
  with assms show ?thesis by (simp add: resolve_or_create_def)
next
  case None
  with assms(1) have created: "create_team_conversation now st org_id = (st', conversation)"
    and cid: "conversation_id = conv_id conversation"
    by (auto simp: resolve_or_create_def split: if_splits prod.splits)
  have "conv_id conversation = team_chat_id org_id"
  proof (cases "map_of (conversations_db st) (team_chat_id org_id)")
    case None
    with created show ?thesis
      by (auto simp: create_team_conversation_def Let_def)
  next
    case (Some existing)
    with created have "conversation = existing"
      by (simp add: create_team_conversation_def)
    moreover from Some have "(team_chat_id org_id, existing) \<in> set (conversations_db st)"
      by (rule map_of_SomeD)
    ultimately show ?thesis
      using assms(2) by (auto simp: ids_are_keys_def list_all_iff)
  qed
  with create_team_conversation_effect [OF created] cid team_chat_id_not_shorthand [of org_id]
  show ?thesis by simp
qed

lemma picture_of_stores:
  "users_db st' = users_db st \<Longrightarrow> picture_of st' author = picture_of st author"
  by (simp add: picture_of_def)

lemma send_chat_message_accepted:
  assumes found: "resolve_or_create now st (user_organization_id current_user)
                    (resolve_conversation_id (user_organization_id current_user)
                       (msg_conversation_id message_data))
                  = Some (st1, conversation, conversation_id)"
    and content: "strip (msg_content message_data) \<noteq> []"
    and member: "user_id current_user \<in> set (conv_participants conversation)"
  shows "\<exists>st' deliveries.
           send_chat_message send_ok fresh_uuid now st message_data current_user
             = (st', Inr (sent_response st1 fresh_uuid (strip (msg_content message_data))
                            current_user conversation_id (isoformat now)),
                deliveries)
         \<and> users_db st' = users_db st1
         \<and> conversation_messages_db st'
             = AList.update fresh_uuid
                 (stored_message fresh_uuid (strip (msg_content message_data)) current_user
                    conversation_id (isoformat now))
                 (conversation_messages_db st1)
         \<and> map_of (conversations_db st') conversation_id
             = Some (conversation\<lparr>conv_updated_at := isoformat now\<rparr>)
         \<and> stored_messages st'
             = upsert (\<lambda>existing new. py_eq (dict_get existing ''id'') (dict_get new ''id''))
                 (stored_message fresh_uuid (strip (msg_content message_data)) current_user
                    conversation_id (isoformat now))
                 (stored_messages st1)
         \<and> conversations_db st'
             = AList.update conversation_id (conversation\<lparr>conv_updated_at := isoformat now\<rparr>)
                 (conversations_db st1)"
proof -
  let ?content = "strip (msg_content message_data)"
  let ?m = "stored_message fresh_uuid ?content current_user conversation_id (isoformat now)"
  let ?st2 = "st1\<lparr>conversation_messages_db :=
                    AList.update fresh_uuid ?m (conversation_messages_db st1)\<rparr>"
  let ?st3 = "save_conversation_message now ?st2 ?m"
  let ?st4 = "bump_conversation ?st3 conversation_id conversation (isoformat now)"
  let ?st5 = "?st4\<lparr>conversation_messages_db :=
                     AList.update fresh_uuid ?m (conversation_messages_db ?st4)\<rparr>"
  let ?r = "sent_response st1 fresh_uuid ?content current_user conversation_id (isoformat now)"
  let ?ev = "[(''type'', Scalar (PyStr ''chat_message'')),
              (''message'', Nested (message_payload ?r)),
              (''conversation_id'', Scalar (PyStr conversation_id))]"
  have users4: "users_db ?st4 = users_db st1"
    by (simp add: bump_conversation_def save_conversation_data_def save_conversation_message_def
                  Let_def)
  have db4: "conversation_messages_db ?st4 = AList.update fresh_uuid ?m (conversation_messages_db st1)"
    by (simp add: bump_conversation_def save_conversation_data_def save_conversation_message_def
                  Let_def)
  have conv4: "map_of (conversations_db ?st4) conversation_id
                 = Some (conversation\<lparr>conv_updated_at := isoformat now\<rparr>)"
    by (simp add: bump_conversation_def save_conversation_data_def save_conversation_message_def
                  Let_def update_conv')
  have pic: "picture_of ?st4 current_user = picture_of st1 current_user"
    using users4 by (rule picture_of_stores)
  obtain st' deliveries where
    b: "broadcast_to_conversation send_ok ?st5 conversation_id ?ev None = (st', deliveries)"
    by (cases "broadcast_to_conversation send_ok ?st5 conversation_id ?ev None")
  from broadcast_to_conversation_stores [OF b] obtain table where
    st': "st' = ?st5\<lparr>active_chat_connections := table\<rparr>" ..
  have copy: "(if (resp_sender_profile_picture r0 = None \<or> resp_sender_profile_picture r0 = Some [])
                    \<and> user_profile_picture current_user \<noteq> None
                    \<and> user_profile_picture current_user \<noteq> Some []
                 then r0\<lparr>resp_sender_profile_picture := user_profile_picture current_user\<rparr>
                 else r0) = ?r"
    if "r0 = \<lparr>resp_id = fresh_uuid, resp_content = ?content,
                   resp_sender_id = user_id current_user,
                   resp_sender_name = user_name current_user,
                   resp_sender_avatar = user_avatar current_user,
                   resp_sender_profile_picture = picture_of ?st4 current_user,
                   resp_conversation_id = conversation_id,
                   resp_created_at = isoformat now, resp_message_type = ''text'',
                   resp_edited = False, resp_reply_to = None\<rparr>" for r0
    unfolding that pic by (simp add: sent_response_def)
  have run: "send_chat_message send_ok fresh_uuid now st message_data current_user
               = (st', Inr ?r, deliveries)"
    unfolding send_chat_message_def Let_def found normalize_new_message fst_conv
      build_stored_message
    using content member
    by (simp only: if_False if_True not_True_eq_False option.case prod.case sum.case
                   copy [OF refl] b)
  have "users_db st' = users_db st1"
    unfolding st' using users4 by simp
  moreover have "conversation_messages_db st' = AList.update fresh_uuid ?m (conversation_messages_db st1)"
    unfolding st' by (simp add: db4)
  moreover have "map_of (conversations_db st') conversation_id
                   = Some (conversation\<lparr>conv_updated_at := isoformat now\<rparr>)"
    unfolding st' using conv4 by simp
  moreover have "stored_messages st'
             = upsert (\<lambda>existing new. py_eq (dict_get existing ''id'') (dict_get new ''id''))
                 ?m (stored_messages st1)"
    unfolding st'
    by (simp add: stored_messages_def bump_conversation_def save_conversation_data_def
                  save_conversation_message_def normalize_stored_message Let_def)
  moreover have "conversations_db st'
             = AList.update conversation_id (conversation\<lparr>conv_updated_at := isoformat now\<rparr>)
                 (conversations_db st1)"
    unfolding st'
    by (simp add: bump_conversation_def save_conversation_data_def
                  save_conversation_message_def Let_def)
  ultimately show ?thesis using run by blast
qed

text \<open>
  When every conversation is stored under its own id, a successful send answers with a
  conversation id that is neither empty nor the shorthand \<^verbatim>\<open>team-chat\<close>.
\<close>

lemma send_chat_message_success:
  assumes sent: "send_chat_message send_ok fresh_uuid now st message_data current_user
                   = (st', Inr response, deliveries)"
    and keys: "ids_are_keys st"
  shows "\<exists>conversation.
           strip (msg_content message_data) \<noteq> []
         \<and> resp_id response = fresh_uuid
         \<and> resp_content response = strip (msg_content message_data)
         \<and> resp_sender_id response = user_id current_user
         \<and> resp_conversation_id response \<noteq> []
         \<and> resp_conversation_id response \<noteq> ''team-chat''
         \<and> users_db st' = users_db st
         \<and> conversation_messages_db st'
             = AList.update fresh_uuid
                 (stored_message fresh_uuid (strip (msg_content message_data)) current_user
                    (resp_conversation_id response) (isoformat now))
                 (conversation_messages_db st)
         \<and> map_of (conversations_db st') (resp_conversation_id response) = Some conversation
         \<and> user_id current_user \<in> set (conv_participants conversation)"
proof -
  let ?org = "user_organization_id current_user"
  let ?c = "resolve_conversation_id ?org (msg_conversation_id message_data)"
  from sent have content: "strip (msg_content message_data) \<noteq> []"
    by (auto simp: send_chat_message_def Let_def split: if_splits)
  with sent obtain st1 conversation conversation_id where
    found: "resolve_or_create now st ?org ?c = Some (st1, conversation, conversation_id)"
    by (cases "resolve_or_create now st ?org ?c") (auto simp: send_chat_message_def Let_def)
  with sent content have member: "user_id current_user \<in> set (conv_participants conversation)"
    by (auto simp: send_chat_message_def Let_def split: if_splits)
  from send_chat_message_accepted [OF found content member, of send_ok fresh_uuid] sent
  have r: "response = sent_response st1 fresh_uuid (strip (msg_content message_data))
                        current_user conversation_id (isoformat now)"
    and u: "users_db st' = users_db st1"
    and db: "conversation_messages_db st'
             = AList.update fresh_uuid
                 (stored_message fresh_uuid (strip (msg_content message_data)) current_user
                    conversation_id (isoformat now))
                 (conversation_messages_db st1)"
    and conv: "map_of (conversations_db st') conversation_id
             = Some (conversation\<lparr>conv_updated_at := isoformat now\<rparr>)"
    by auto
  from resolve_or_create_effect [OF found keys] resolve_not_shorthand [of ?org]
  have e: "users_db st1 = users_db st" "conversation_messages_db st1 = conversation_messages_db st"
    "conversation_id \<noteq> []" "conversation_id \<noteq> ''team-chat''"
    by auto
  have fields: "resp_id response = fresh_uuid"
    "resp_content response = strip (msg_content message_data)"
    "resp_sender_id response = user_id current_user"
    "resp_conversation_id response = conversation_id"
    by (simp_all add: r sent_response_def)
  show ?thesis
    by (rule exI [of _ "conversation\<lparr>conv_updated_at := isoformat now\<rparr>"])
       (use content fields e u db conv member in simp)
qed




lemma get_chat_messages_visible:
  "get_chat_messages now st conversation_id0 limit current_user =
     (let org_id = user_organization_id current_user;
          conversation_id = resolve_conversation_id org_id conversation_id0;
          denied = (case map_of (conversations_db st) conversation_id of
                      None \<Rightarrow> False
                    | Some conversation \<Rightarrow>
                        user_id current_user \<notin> set (conv_participants conversation))
      in if denied then (st, Inl (HTTPException 403 ''Access denied to conversation''))
         else
           (case py_sorted_by (\<lambda>(k, m). created_at_key m)
                   (visible_messages st conversation_id org_id) of
              None \<Rightarrow> (st, Inl (ServerError ''Failed to load messages: '' TypeError))
            | Some sorted_messages \<Rightarrow>
                build_responses ''Failed to load messages: '' now st
                  (last_slice limit sorted_messages)))"
  unfolding get_chat_messages_def visible_messages_def Let_def by (rule refl)












section \<open>The example conversation\<close>

lemma strip_hello: "strip ''  hello '' = ''hello''"
  by (simp add: strip_def py_isspace_def)

lemma strip_hi: "strip ''hi'' = ''hi''"
  by (simp add: strip_def py_isspace_def)

lemma isoformat_minute_later: "isoformat minute_later = ''2025-03-14T12:01:00''"
  by code_simp

lemma resolve_or_create_found:
  "map_of (conversations_db st) c = Some conversation \<Longrightarrow>
   resolve_or_create now st org_id c = Some (st, conversation, c)"
  by (simp add: resolve_or_create_def)

text \<open>The two example messages.\<close>

lemma three_online_stores:
  "users_db three_online = [(''alice'', alice), (''bob'', bob), (''carol'', carol)]"
  "conversations_db three_online = [(''uuid-1'', dm ''uuid-1'' ''Bob'' [''bob'', ''alice''])]"
  "conversation_messages_db three_online = []"
  "messages_file three_online = None"
  by (simp_all add: three_online_eq org1_server_def)

lemma hello_sent_state:
  "fst (snd hello_sent)
     = Inr (sent_response three_online ''m-1'' ''hello'' alice ''uuid-1'' ''2025-03-14T12:00:00'')"
  "users_db (fst hello_sent) = users_db three_online"
  "conversation_messages_db (fst hello_sent)
     = [(''m-1'', stored_message ''m-1'' ''hello'' alice ''uuid-1'' ''2025-03-14T12:00:00'')]"
  "stored_messages (fst hello_sent)
     = [stored_message ''m-1'' ''hello'' alice ''uuid-1'' ''2025-03-14T12:00:00'']"
  "map_of (conversations_db (fst hello_sent)) ''uuid-1''
     = Some (dm ''uuid-1'' ''Bob'' [''bob'', ''alice''])"
  "conversations_db (fst hello_sent) = [(''uuid-1'', dm ''uuid-1'' ''Bob'' [''bob'', ''alice''])]"
proof -
  let ?req = "\<lparr>msg_content = ''  hello '', msg_conversation_id = Some ''uuid-1''\<rparr>"
  have found: "resolve_or_create noon three_online (user_organization_id alice)
                 (resolve_conversation_id (user_organization_id alice) (msg_conversation_id ?req))
               = Some (three_online, dm ''uuid-1'' ''Bob'' [''bob'', ''alice''], ''uuid-1'')"
    by (simp add: resolve_conversation_id_def resolve_or_create_found three_online_stores)
  have content: "strip (msg_content ?req) \<noteq> []"
    by (simp add: strip_hello)
  have member: "user_id alice \<in> set (conv_participants (dm ''uuid-1'' ''Bob'' [''bob'', ''alice'']))"
    by (simp add: alice_def dm_def)
  from send_chat_message_accepted [OF found content member, of "\<lambda>ws. True" "''m-1''"]
  obtain st' deliveries where
    h: "hello_sent = (st', Inr (sent_response three_online ''m-1'' ''hello'' alice ''uuid-1''
                               ''2025-03-14T12:00:00''), deliveries)"
    and s: "users_db st' = users_db three_online"
    "conversation_messages_db st'
       = [(''m-1'', stored_message ''m-1'' ''hello'' alice ''uuid-1'' ''2025-03-14T12:00:00'')]"
    "stored_messages st'
       = [stored_message ''m-1'' ''hello'' alice ''uuid-1'' ''2025-03-14T12:00:00'']"
    "map_of (conversations_db st') ''uuid-1'' = Some (dm ''uuid-1'' ''Bob'' [''bob'', ''alice''])"
    "conversations_db st' = [(''uuid-1'', dm ''uuid-1'' ''Bob'' [''bob'', ''alice''])]"
    by (auto simp: hello_sent_def strip_hello isoformat_noon three_online_stores
                   stored_messages_def dm_def)
  have st': "fst hello_sent = st'" unfolding h by (rule fst_conv)
  show "fst (snd hello_sent)
     = Inr (sent_response three_online ''m-1'' ''hello'' alice ''uuid-1'' ''2025-03-14T12:00:00'')"
    unfolding h by simp
  from s show "users_db (fst hello_sent) = users_db three_online"
    "conversation_messages_db (fst hello_sent)
     = [(''m-1'', stored_message ''m-1'' ''hello'' alice ''uuid-1'' ''2025-03-14T12:00:00'')]"
    "stored_messages (fst hello_sent)
     = [stored_message ''m-1'' ''hello'' alice ''uuid-1'' ''2025-03-14T12:00:00'']"
    "map_of (conversations_db (fst hello_sent)) ''uuid-1''
     = Some (dm ''uuid-1'' ''Bob'' [''bob'', ''alice''])"
    "conversations_db (fst hello_sent) = [(''uuid-1'', dm ''uuid-1'' ''Bob'' [''bob'', ''alice''])]"
    unfolding st' by simp_all
qed

lemma answer_sent_state:
  "fst (snd answer_sent)
     = Inr (sent_response (fst hello_sent) ''m-2'' ''hi'' bob ''uuid-1'' ''2025-03-14T12:01:00'')"
  "users_db (fst answer_sent) = users_db three_online"
  "conversation_messages_db (fst answer_sent)
     = [(''m-1'', stored_message ''m-1'' ''hello'' alice ''uuid-1'' ''2025-03-14T12:00:00''),
        (''m-2'', stored_message ''m-2'' ''hi'' bob ''uuid-1'' ''2025-03-14T12:01:00'')]"
  "stored_messages (fst answer_sent)
     = [stored_message ''m-1'' ''hello'' alice ''uuid-1'' ''2025-03-14T12:00:00'',
        stored_message ''m-2'' ''hi'' bob ''uuid-1'' ''2025-03-14T12:01:00'']"
  "map_of (conversations_db (fst answer_sent)) ''uuid-1''
     = Some ((dm ''uuid-1'' ''Bob'' [''bob'', ''alice''])
               \<lparr>conv_updated_at := ''2025-03-14T12:01:00''\<rparr>)"
proof -
  let ?req = "\<lparr>msg_content = ''hi'', msg_conversation_id = Some ''uuid-1''\<rparr>"
  have found: "resolve_or_create minute_later (fst hello_sent) (user_organization_id bob)
                 (resolve_conversation_id (user_organization_id bob) (msg_conversation_id ?req))
               = Some (fst hello_sent, dm ''uuid-1'' ''Bob'' [''bob'', ''alice''], ''uuid-1'')"
    by (simp add: resolve_conversation_id_def resolve_or_create_found hello_sent_state)
  have content: "strip (msg_content ?req) \<noteq> []"
    by (simp add: strip_hi)
  have member: "user_id bob \<in> set (conv_participants (dm ''uuid-1'' ''Bob'' [''bob'', ''alice'']))"
    by (simp add: bob_def dm_def)
  from send_chat_message_accepted [OF found content member, of "\<lambda>ws. True" "''m-2''"]
  obtain st' deliveries where
    h: "answer_sent = (st', Inr (sent_response (fst hello_sent) ''m-2'' ''hi'' bob ''uuid-1''
                                  ''2025-03-14T12:01:00''), deliveries)"
    and s: "users_db st' = users_db three_online"
    "conversation_messages_db st'
     = [(''m-1'', stored_message ''m-1'' ''hello'' alice ''uuid-1'' ''2025-03-14T12:00:00''),
        (''m-2'', stored_message ''m-2'' ''hi'' bob ''uuid-1'' ''2025-03-14T12:01:00'')]"
    "stored_messages st'
     = [stored_message ''m-1'' ''hello'' alice ''uuid-1'' ''2025-03-14T12:00:00'',
        stored_message ''m-2'' ''hi'' bob ''uuid-1'' ''2025-03-14T12:01:00'']"
    "map_of (conversations_db st') ''uuid-1''
     = Some ((dm ''uuid-1'' ''Bob'' [''bob'', ''alice''])
               \<lparr>conv_updated_at := ''2025-03-14T12:01:00''\<rparr>)"
    by (auto simp: answer_sent_def strip_hi isoformat_minute_later hello_sent_state
                   stored_message_def new_message_def dict_get_def)
  have st': "fst answer_sent = st'" unfolding h by (rule fst_conv)
  show "fst (snd answer_sent)
     = Inr (sent_response (fst hello_sent) ''m-2'' ''hi'' bob ''uuid-1'' ''2025-03-14T12:01:00'')"
    unfolding h by simp
  from s show "users_db (fst answer_sent) = users_db three_online"
  "conversation_messages_db (fst answer_sent)
     = [(''m-1'', stored_message ''m-1'' ''hello'' alice ''uuid-1'' ''2025-03-14T12:00:00''),
        (''m-2'', stored_message ''m-2'' ''hi'' bob ''uuid-1'' ''2025-03-14T12:01:00'')]"
  "stored_messages (fst answer_sent)
     = [stored_message ''m-1'' ''hello'' alice ''uuid-1'' ''2025-03-14T12:00:00'',
        stored_message ''m-2'' ''hi'' bob ''uuid-1'' ''2025-03-14T12:01:00'']"
  "map_of (conversations_db (fst answer_sent)) ''uuid-1''
     = Some ((dm ''uuid-1'' ''Bob'' [''bob'', ''alice''])
               \<lparr>conv_updated_at := ''2025-03-14T12:01:00''\<rparr>)"
    unfolding st' by simp_all
qed

lemma delete_first_accepted:
  "fst (snd (delete_message (\<lambda>ws. True) (fst answer_sent) ''m-1'' alice)) = Inr ()"
  by (simp add: delete_message_def answer_sent_state lookup_conversation_def
                stored_message_def new_message_def dict_get_def dict_has_def alice_def dm_def
                Let_def split_def)

theorem delete_message_removes_exactly_one_witness:
  "distinct (map fst (conversation_messages_db (fst answer_sent)))
   \<and> distinct (map (\<lambda>m. dict_get m ''id'') (stored_messages (fst answer_sent)))
   \<and> map fst (conversation_messages_db (fst answer_sent)) = [''m-1'', ''m-2'']
   \<and> fst (snd (delete_message (\<lambda>ws. True) (fst answer_sent) ''m-1'' alice)) = Inr ()
   \<and> conversation_messages_db (fst (delete_message (\<lambda>ws. True) (fst answer_sent) ''m-1'' alice))
       = [(''m-2'', stored_message ''m-2'' ''hi'' bob ''uuid-1'' ''2025-03-14T12:01:00'')]
   \<and> stored_messages (fst (delete_message (\<lambda>ws. True) (fst answer_sent) ''m-1'' alice))
       = [stored_message ''m-2'' ''hi'' bob ''uuid-1'' ''2025-03-14T12:01:00'']"
proof -
  let ?d = "delete_message (\<lambda>ws. True) (fst answer_sent) ''m-1'' alice"
  have keys: "distinct (map fst (conversation_messages_db (fst answer_sent)))"
    by (simp add: answer_sent_state)
  have ids: "distinct (map (\<lambda>m. dict_get m ''id'') (stored_messages (fst answer_sent)))"
    by (simp add: answer_sent_state stored_message_def new_message_def dict_get_def)
  have res: "?d = (fst ?d, fst (snd ?d), snd (snd ?d))"
    by simp
  from delete_message_removes_exactly_one [OF keys ids res] delete_first_accepted
  have "conversation_messages_db (fst ?d)
          = filter (\<lambda>(k, m). k \<noteq> ''m-1'') (conversation_messages_db (fst answer_sent))"
    and "stored_messages (fst ?d)
          = filter (\<lambda>m. dict_get m ''id'' \<noteq> PyStr ''m-1'') (stored_messages (fst answer_sent))"
    by simp_all
  then have "conversation_messages_db (fst ?d)
          = [(''m-2'', stored_message ''m-2'' ''hi'' bob ''uuid-1'' ''2025-03-14T12:01:00'')]"
    and "stored_messages (fst ?d)
          = [stored_message ''m-2'' ''hi'' bob ''uuid-1'' ''2025-03-14T12:01:00'']"
    by (simp_all add: answer_sent_state stored_message_def new_message_def dict_get_def)
  with keys ids delete_first_accepted show ?thesis
    by (simp add: answer_sent_state)
qed


lemma stored_message_get:
  "dict_get (stored_message message_id content author conversation_id created_at)
     ''conversation_id'' = PyStr conversation_id"
  "dict_get (stored_message message_id content author conversation_id created_at)
     ''author_id'' = PyStr (user_id author)"
  "created_at_key (stored_message message_id content author conversation_id created_at)
     = PyStr created_at"
  by (simp_all add: stored_message_def new_message_def dict_get_def dict_has_def
                    created_at_key_def)

lemma user_orgs:
  "user_organization_id alice = ''org1''" "user_organization_id bob = ''org1''"
  "user_id alice = ''alice''" "user_id bob = ''bob''"
  by (simp_all add: alice_def bob_def)













text \<open>
  Why the theorem asks for the conversation id of the response: in a table that holds
  the team conversation with an empty id (the loader and the handlers store a
  conversation under its id, so they build no such table), the message goes to the
  conversation id \<^verbatim>\<open>""\<close>, and a history query for \<^verbatim>\<open>""\<close> reads the team chat, which
  does not hold it.
\<close>

lemma misfiled_store_stores:
  "users_db misfiled_store = [(''alice'', alice), (''bob'', bob), (''carol'', carol)]"
  "conversations_db misfiled_store = [(''team-chat-org1'', misfiled_team)]"
  "conversation_messages_db misfiled_store = []"
  by (simp_all add: misfiled_store_def three_online_stores)

lemma misfiled_sent_state:
  "fst (snd misfiled_sent)
     = Inr (sent_response misfiled_store ''m-1'' ''hello'' alice [] ''2025-03-14T12:00:00'')"
  "users_db (fst misfiled_sent) = [(''alice'', alice), (''bob'', bob), (''carol'', carol)]"
  "conversation_messages_db (fst misfiled_sent)
     = [(''m-1'', stored_message ''m-1'' ''hello'' alice [] ''2025-03-14T12:00:00'')]"
  "conversations_db (fst misfiled_sent)
     = [(''team-chat-org1'', misfiled_team),
        ([], misfiled_team\<lparr>conv_updated_at := ''2025-03-14T12:00:00''\<rparr>)]"
proof -
  let ?req = "\<lparr>msg_content = ''hello'', msg_conversation_id = Some ''team-chat-org1-all''\<rparr>"
  have found: "resolve_or_create noon misfiled_store (user_organization_id alice)
                 (resolve_conversation_id (user_organization_id alice) (msg_conversation_id ?req))
               = Some (misfiled_store, misfiled_team, [])"
    by (simp add: resolve_conversation_id_def resolve_or_create_def misfiled_store_stores
                  user_orgs team_chat_id_def startswith_def create_team_conversation_def
                  misfiled_team_def)
  have content: "strip (msg_content ?req) \<noteq> []"
    by (simp add: strip_def py_isspace_def)
  have member: "user_id alice \<in> set (conv_participants misfiled_team)"
    by (simp add: alice_def misfiled_team_def)
  have stripped: "strip ''hello'' = ''hello''"
    by (simp add: strip_def py_isspace_def)
  from send_chat_message_accepted [OF found content member, of "\<lambda>ws. True" "''m-1''"]
  obtain st' deliveries where
    h: "misfiled_sent = (st', Inr (sent_response misfiled_store ''m-1'' ''hello'' alice []
                               ''2025-03-14T12:00:00''), deliveries)"
    and s: "users_db st' = [(''alice'', alice), (''bob'', bob), (''carol'', carol)]"
    "conversation_messages_db st'
       = [(''m-1'', stored_message ''m-1'' ''hello'' alice [] ''2025-03-14T12:00:00'')]"
    "conversations_db st'
     = [(''team-chat-org1'', misfiled_team),
        ([], misfiled_team\<lparr>conv_updated_at := ''2025-03-14T12:00:00''\<rparr>)]"
    by (auto simp: misfiled_sent_def stripped isoformat_noon misfiled_store_stores)
  have st': "fst misfiled_sent = st'" unfolding h by (rule fst_conv)
  show "fst (snd misfiled_sent)
     = Inr (sent_response misfiled_store ''m-1'' ''hello'' alice [] ''2025-03-14T12:00:00'')"
    unfolding h by simp
  from s show "users_db (fst misfiled_sent) = [(''alice'', alice), (''bob'', bob), (''carol'', carol)]"
  "conversation_messages_db (fst misfiled_sent)
     = [(''m-1'', stored_message ''m-1'' ''hello'' alice [] ''2025-03-14T12:00:00'')]"
  "conversations_db (fst misfiled_sent)
     = [(''team-chat-org1'', misfiled_team),
        ([], misfiled_team\<lparr>conv_updated_at := ''2025-03-14T12:00:00''\<rparr>)]"
    unfolding st' by simp_all
qed

lemma misfiled_team_conversation:
  "map_sum id resp_conversation_id (fst (snd misfiled_sent)) = Inr []
   \<and> snd (get_chat_messages minute_later (fst misfiled_sent) (Some []) 50 alice) = Inr []"
proof -
  have visible: "visible_messages (fst misfiled_sent) ''team-chat-org1'' ''org1'' = []"
    by (simp add: visible_messages_def misfiled_sent_state stored_message_get)
  have "snd (get_chat_messages minute_later (fst misfiled_sent) (Some []) 50 alice) = Inr []"
    by (simp add: get_chat_messages_visible resolve_conversation_id_def misfiled_sent_state
                  user_orgs visible Let_def team_chat_id_def misfiled_team_def
                  py_sorted_by_def last_slice_def)
  then show ?thesis
    by (simp add: misfiled_sent_state sent_response_def)
qed

end
